theory Spec2Isabelle
  imports Main
begin

section \<open>Values and records of prompts.ts\<close>

text \<open>
  The module under verification is \<^verbatim>\<open>src/prompts.ts\<close>. JavaScript strings are
  modelled as \<^typ>\<open>string\<close>, the value \<^verbatim>\<open>undefined\<close> as \<^term>\<open>None\<close>, arrays as
  lists, and a settled promise as a sum: \<^term>\<open>Inl\<close> is a rejection (an exception when
  awaited), \<^term>\<open>Inr\<close> the value it resolved to.
\<close>

datatype error =
    TypeError         \<comment> \<open>reading a property of \<^verbatim>\<open>undefined\<close>\<close>
  | Rejected string   \<comment> \<open>a rejection of a firebase-tools or inquirer promise\<close>

type_synonym 'a promise = "error + 'a"

definition NEW_OPTION :: string where
  "NEW_OPTION = ''(~~new~~)''"

definition DEFAULT_SITE_TYPE :: string where
  "DEFAULT_SITE_TYPE = ''DEFAULT_SITE''"

text \<open>
  The records of firebase-tools, with the fields this module reads or writes. A field the
  module itself guards against being absent (\<^verbatim>\<open>app?.appId &&\<close>, \<^verbatim>\<open>site?.name &&\<close>) or
  leaves out of an object it builds (the create-new site has no \<^verbatim>\<open>type\<close>) is optional.
\<close>

record FirebaseProject =
  projectId :: string
  displayName :: string

record FirebaseApp =
  appId :: "string option"
  displayName :: string

record FirebaseHostingSite =
  name :: "string option"
  defaultUrl :: string
  type :: "string option"
  appId :: "string option"

record account =
  email :: string

record stored_user =
  user :: account

text \<open>The choice handed to the prompt: \<^verbatim>\<open>{name, title, value}\<close>.\<close>

record 'v choice =
  name :: string
  title :: string
  "value" :: 'v

text \<open>The choice of the account list prompt: \<^verbatim>\<open>{name, value}\<close>.\<close>

record 'v list_choice =
  name :: string
  "value" :: 'v

section \<open>Short identifiers\<close>

text \<open>\<^verbatim>\<open>String.prototype.split\<close> with a one-character separator, and \<^verbatim>\<open>Array.prototype.pop\<close>
  (its result; the array it shortens is a temporary).\<close>

fun split :: "char \<Rightarrow> string \<Rightarrow> string list" where
  "split c [] = [[]]"
| "split c (x # xs) =
     (if x = c then [] # split c xs
      else (case split c xs of w # ws \<Rightarrow> (x # w) # ws | [] \<Rightarrow> [[x]]))"

definition pop :: "'a list \<Rightarrow> 'a option" where
  "pop xs = (if xs = [] then None else Some (last xs))"

text \<open>
  \<^verbatim>\<open>shortAppId = (app?) => app?.appId && app.appId.split('/').pop()\<close> (line 29).
  \<^verbatim>\<open>app?.appId\<close> is \<^verbatim>\<open>undefined\<close> for an undefined \<^verbatim>\<open>app\<close>; \<^verbatim>\<open>&&\<close> yields its left operand
  when that is falsy (\<^verbatim>\<open>undefined\<close> or the empty string); the right operand reads
  \<^verbatim>\<open>app.appId\<close> again, which throws a TypeError on an undefined \<^verbatim>\<open>app\<close>, and calls
  \<^verbatim>\<open>split\<close> on it, which throws on \<^verbatim>\<open>undefined\<close>.
\<close>

definition shortAppId :: "FirebaseApp option \<Rightarrow> error + string option" where
  "shortAppId app =
     (case (case app of None \<Rightarrow> None | Some a \<Rightarrow> FirebaseApp.appId a) of
        None \<Rightarrow> Inr None
      | Some s \<Rightarrow>
          if s = [] then Inr (Some s)
          else (case app of
                  None \<Rightarrow> Inl TypeError
                | Some a \<Rightarrow>
                    (case FirebaseApp.appId a of
                       None \<Rightarrow> Inl TypeError
                     | Some s' \<Rightarrow> Inr (pop (split CHR ''/'' s')))))"

text \<open>\<^verbatim>\<open>shortSiteName = (site?) => site?.name && site.name.split('/').pop()\<close> (line 31).\<close>

definition shortSiteName :: "FirebaseHostingSite option \<Rightarrow> error + string option" where
  "shortSiteName site =
     (case (case site of None \<Rightarrow> None | Some a \<Rightarrow> FirebaseHostingSite.name a) of
        None \<Rightarrow> Inr None
      | Some s \<Rightarrow>
          if s = [] then Inr (Some s)
          else (case site of
                  None \<Rightarrow> Inl TypeError
                | Some a \<Rightarrow>
                    (case FirebaseHostingSite.name a of
                       None \<Rightarrow> Inl TypeError
                     | Some s' \<Rightarrow> Inr (pop (split CHR ''/'' s')))))"

section \<open>Results of the fuzzy filter\<close>

text \<open>
  An element of the array \<^verbatim>\<open>fuzzy.filter\<close> returns: the candidate itself, or a
  \<^verbatim>\<open>FilterResult\<close> that carries the candidate in its field \<^verbatim>\<open>original\<close> beside the match
  data. \<open>field_original\<close> is the read \<^verbatim>\<open>elem.original\<close>: a candidate record has no such
  field, so the read gives \<^verbatim>\<open>undefined\<close>.
\<close>

datatype 'a filter_elem =
    Raw (record_of: 'a)
  | FilterResult (string: string) (index: nat) (original: 'a)

fun field_original :: "'a filter_elem \<Rightarrow> 'a option" where
  "field_original (Raw r) = None"
| "field_original (FilterResult s i r) = Some r"

text \<open>Lines 35-45: \<^verbatim>\<open>(elem as {original}).original === undefined\<close>.\<close>

definition isProject :: "FirebaseProject filter_elem \<Rightarrow> bool" where
  "isProject elem = (field_original elem = None)"

definition isApp :: "FirebaseApp filter_elem \<Rightarrow> bool" where
  "isApp elem = (field_original elem = None)"

definition isSite :: "FirebaseHostingSite filter_elem \<Rightarrow> bool" where
  "isSite elem = (field_original elem = None)"

text \<open>
  The filter of the package \<^verbatim>\<open>fuzzy\<close> is imported (line 15) and is no part of this
  repository: the adapters and flows take it as a parameter, called as
  \<^verbatim>\<open>fuzzy.filter(input, list, {extract})\<close>. It returns a new array and leaves the list it
  is given as it is.
\<close>

type_synonym 'a fuzzy_filter = "string \<Rightarrow> ('a \<Rightarrow> string) \<Rightarrow> 'a list \<Rightarrow> 'a filter_elem list"

text \<open>
  Modelled from the spec: the fuzzy filter of the imported package, which the repository
  does not contain. The spec describes it as selecting the list elements whose extracted
  text matches the query as a subsequence, each result a wrapper around the original
  candidate, and as keeping all candidates in their order for the empty query. It serves
  as the concrete filter of the evaluated examples only.
\<close>

fun is_subseq :: "string \<Rightarrow> string \<Rightarrow> bool" where
  "is_subseq [] cs = True"
| "is_subseq (p # ps) [] = False"
| "is_subseq (p # ps) (c # cs) = (if p = c then is_subseq ps cs else is_subseq (p # ps) cs)"

text \<open>Modelled from the spec: the matching elements, in the order of the list, each wrapped
  with its extracted text and its position in the list.\<close>

fun filter_from :: "nat \<Rightarrow> string \<Rightarrow> ('a \<Rightarrow> string) \<Rightarrow> 'a list \<Rightarrow> 'a filter_elem list" where
  "filter_from i pattern extract [] = []"
| "filter_from i pattern extract (el # arr) =
     (if is_subseq pattern (extract el)
      then FilterResult (extract el) i el # filter_from (Suc i) pattern extract arr
      else filter_from (Suc i) pattern extract arr)"

text \<open>Modelled from the spec: fuzzy filtering of a list by a query.\<close>

definition subseq_filter :: "'a fuzzy_filter" where
  "subseq_filter pattern extract arr = filter_from 0 pattern extract arr"

section \<open>Search adapters\<close>

text \<open>
  The body of each adapter's \<^verbatim>\<open>map\<close> callback starts with
  \<^verbatim>\<open>if (isProject(result)) { original = result } else { original = result.original }\<close>
  (lines 58-63, 83-88, 108-113): \<open>project_original\<close>, \<open>app_original\<close> and
  \<open>site_original\<close> below.

  \<^verbatim>\<open>searchProjects(promise)\<close> is the handler \<^verbatim>\<open>(_, input) => promise.then(...)\<close>
  (lines 47-70). The array the promise resolved to is shared with every later reader of
  the promise, and \<^verbatim>\<open>unshift\<close> changes it in place: the handler takes the promise with
  the array as it is now and returns, beside the promise of its choices, the promise with
  the array as the call leaves it.
\<close>

definition new_project :: FirebaseProject where
  "new_project = \<lparr>projectId = NEW_OPTION, FirebaseProject.displayName = ''[CREATE NEW PROJECT]''\<rparr>"

definition project_extract :: "FirebaseProject \<Rightarrow> string" where
  "project_extract el = projectId el @ '' '' @ FirebaseProject.displayName el"

definition project_original :: "FirebaseProject filter_elem \<Rightarrow> FirebaseProject" where
  "project_original result = (if isProject result then record_of result else original result)"

definition project_choice :: "FirebaseProject filter_elem \<Rightarrow> string choice" where
  "project_choice result =
     (let original = project_original result
      in \<lparr>choice.name = FirebaseProject.displayName original,
          title = FirebaseProject.displayName original,
          choice.value = projectId original\<rparr>)"

definition searchProjects ::
  "FirebaseProject fuzzy_filter \<Rightarrow> FirebaseProject list promise \<Rightarrow> string \<Rightarrow>
     string choice list promise \<times> FirebaseProject list promise" where
  "searchProjects fuzzy promise input =
     (case promise of
        Inl e \<Rightarrow> (Inl e, Inl e)
      | Inr projects \<Rightarrow>
          (let projects' = new_project # projects
           in (Inr (map project_choice (fuzzy input project_extract projects')),
               Inr projects')))"

text \<open>A \<^verbatim>\<open>map\<close> whose callback may throw: the first exception ends it.\<close>

fun map_throwing :: "('a \<Rightarrow> error + 'b) \<Rightarrow> 'a list \<Rightarrow> error + 'b list" where
  "map_throwing f [] = Inr []"
| "map_throwing f (x # xs) =
     (case f x of
        Inl e \<Rightarrow> Inl e
      | Inr y \<Rightarrow> (case map_throwing f xs of Inl e \<Rightarrow> Inl e | Inr ys \<Rightarrow> Inr (y # ys)))"

text \<open>\<^verbatim>\<open>searchApps\<close> (lines 72-95).\<close>

definition new_app :: FirebaseApp where
  "new_app = \<lparr>FirebaseApp.appId = Some NEW_OPTION, FirebaseApp.displayName = ''[CREATE NEW APP]''\<rparr>"

definition app_original :: "FirebaseApp filter_elem \<Rightarrow> FirebaseApp" where
  "app_original result = (if isApp result then record_of result else original result)"

definition app_choice :: "FirebaseApp filter_elem \<Rightarrow> error + string option choice" where
  "app_choice result =
     (let original = app_original result
      in (case shortAppId (Some original) of
            Inl e \<Rightarrow> Inl e
          | Inr v \<Rightarrow>
              Inr \<lparr>choice.name = FirebaseApp.displayName original,
                   title = FirebaseApp.displayName original,
                   choice.value = v\<rparr>))"

definition searchApps ::
  "FirebaseApp fuzzy_filter \<Rightarrow> FirebaseApp list promise \<Rightarrow> string \<Rightarrow>
     string option choice list promise \<times> FirebaseApp list promise" where
  "searchApps fuzzy promise input =
     (case promise of
        Inl e \<Rightarrow> (Inl e, Inl e)
      | Inr apps \<Rightarrow>
          (let apps' = new_app # apps
           in (map_throwing app_choice (fuzzy input FirebaseApp.displayName apps'),
               Inr apps')))"

text \<open>\<^verbatim>\<open>searchSites\<close> (lines 97-120).\<close>

definition new_site :: FirebaseHostingSite where
  "new_site =
     \<lparr>FirebaseHostingSite.name = Some NEW_OPTION, defaultUrl = ''[CREATE NEW SITE]'',
      type = None, FirebaseHostingSite.appId = None\<rparr>"

definition site_original :: "FirebaseHostingSite filter_elem \<Rightarrow> FirebaseHostingSite" where
  "site_original result = (if isSite result then record_of result else original result)"

definition site_choice :: "FirebaseHostingSite filter_elem \<Rightarrow> error + string option choice" where
  "site_choice result =
     (let original = site_original result
      in (case shortSiteName (Some original) of
            Inl e \<Rightarrow> Inl e
          | Inr v \<Rightarrow>
              Inr \<lparr>choice.name = defaultUrl original,
                   title = defaultUrl original,
                   choice.value = v\<rparr>))"

definition searchSites ::
  "FirebaseHostingSite fuzzy_filter \<Rightarrow> FirebaseHostingSite list promise \<Rightarrow> string \<Rightarrow>
     string option choice list promise \<times> FirebaseHostingSite list promise" where
  "searchSites fuzzy promise input =
     (case promise of
        Inl e \<Rightarrow> (Inl e, Inl e)
      | Inr sites \<Rightarrow>
          (let sites' = new_site # sites
           in (map_throwing site_choice (fuzzy input defaultUrl sites'),
               Inr sites')))"

section \<open>The collaborators: firebase-tools and inquirer\<close>

text \<open>
  Both are imported packages. Every call of firebase-tools is entered in the history of
  calls, and what the backend answers is a parameter that may depend on the calls made
  before: asked twice, it may answer differently. \<open>'o\<close> is the type of the \<^verbatim>\<open>options\<close>
  object the flows pass on.
\<close>

datatype 'o call =
    LoginList                          \<comment> \<open>\<^verbatim>\<open>login.list()\<close>\<close>
  | Login "'o option"                  \<comment> \<open>\<^verbatim>\<open>login()\<close>, \<^verbatim>\<open>login(options)\<close>\<close>
  | LoginAdd                           \<comment> \<open>\<^verbatim>\<open>login.add()\<close>\<close>
  | ProjectsList 'o                    \<comment> \<open>\<^verbatim>\<open>projects.list(options)\<close>\<close>
  | ProjectsCreate string string 'o    \<comment> \<open>\<^verbatim>\<open>projects.create(projectId, {account, displayName, ...})\<close>\<close>
  | AppsList string 'o                 \<comment> \<open>\<^verbatim>\<open>apps.list('web', {...options, project})\<close>\<close>
  | AppsCreate string string 'o        \<comment> \<open>\<^verbatim>\<open>apps.create('web', displayName, {..., project})\<close>\<close>
  | SitesList string 'o                \<comment> \<open>\<^verbatim>\<open>hosting.sites.list({...options, project})\<close>\<close>
  | SitesCreate string string 'o       \<comment> \<open>\<^verbatim>\<open>hosting.sites.create(subdomain, {..., project})\<close>\<close>

record sites_response =
  sites :: "FirebaseHostingSite list"

text \<open>The backend: its answer to each operation, from the calls made so far and the
  arguments.\<close>

record 'o firebaseTools =
  on_login_list :: "'o call list \<Rightarrow> stored_user list option promise"
  on_login :: "'o call list \<Rightarrow> 'o option \<Rightarrow> account promise"
  on_login_add :: "'o call list \<Rightarrow> stored_user promise"
  on_projects_list :: "'o call list \<Rightarrow> 'o \<Rightarrow> FirebaseProject list promise"
  on_projects_create :: "'o call list \<Rightarrow> string \<Rightarrow> string \<Rightarrow> 'o \<Rightarrow> FirebaseProject promise"
  on_apps_list :: "'o call list \<Rightarrow> string \<Rightarrow> 'o \<Rightarrow> FirebaseApp list promise"
  on_apps_create :: "'o call list \<Rightarrow> string \<Rightarrow> string \<Rightarrow> 'o \<Rightarrow> FirebaseApp promise"
  on_sites_list :: "'o call list \<Rightarrow> string \<Rightarrow> 'o \<Rightarrow> sites_response promise"
  on_sites_create :: "'o call list \<Rightarrow> string \<Rightarrow> string \<Rightarrow> 'o \<Rightarrow> FirebaseHostingSite promise"

text \<open>
  The operations the module calls. Each takes the history \<open>h\<close> of calls, returns the
  backend's answer at that history and enters itself in the history: the flows reach the
  backend through these alone, so the history a flow returns is the list of the calls it
  made.
\<close>

definition login_list ::
  "'o firebaseTools \<Rightarrow> 'o call list \<Rightarrow> stored_user list option promise \<times> 'o call list" where
  "login_list tools h = (on_login_list tools h, h @ [LoginList])"

definition login ::
  "'o firebaseTools \<Rightarrow> 'o option \<Rightarrow> 'o call list \<Rightarrow> account promise \<times> 'o call list" where
  "login tools opts h = (on_login tools h opts, h @ [Login opts])"

definition login_add ::
  "'o firebaseTools \<Rightarrow> 'o call list \<Rightarrow> stored_user promise \<times> 'o call list" where
  "login_add tools h = (on_login_add tools h, h @ [LoginAdd])"

definition projects_list ::
  "'o firebaseTools \<Rightarrow> 'o \<Rightarrow> 'o call list \<Rightarrow> FirebaseProject list promise \<times> 'o call list" where
  "projects_list tools opts h = (on_projects_list tools h opts, h @ [ProjectsList opts])"

definition projects_create ::
  "'o firebaseTools \<Rightarrow> string \<Rightarrow> string \<Rightarrow> 'o \<Rightarrow> 'o call list \<Rightarrow>
     FirebaseProject promise \<times> 'o call list" where
  "projects_create tools newId newName opts h =
     (on_projects_create tools h newId newName opts, h @ [ProjectsCreate newId newName opts])"

definition apps_list ::
  "'o firebaseTools \<Rightarrow> string \<Rightarrow> 'o \<Rightarrow> 'o call list \<Rightarrow> FirebaseApp list promise \<times> 'o call list" where
  "apps_list tools project opts h = (on_apps_list tools h project opts, h @ [AppsList project opts])"

definition apps_create ::
  "'o firebaseTools \<Rightarrow> string \<Rightarrow> string \<Rightarrow> 'o \<Rightarrow> 'o call list \<Rightarrow>
     FirebaseApp promise \<times> 'o call list" where
  "apps_create tools newName project opts h =
     (on_apps_create tools h newName project opts, h @ [AppsCreate newName project opts])"

definition sites_list ::
  "'o firebaseTools \<Rightarrow> string \<Rightarrow> 'o \<Rightarrow> 'o call list \<Rightarrow> sites_response promise \<times> 'o call list" where
  "sites_list tools project opts h =
     (on_sites_list tools h project opts, h @ [SitesList project opts])"

definition sites_create ::
  "'o firebaseTools \<Rightarrow> string \<Rightarrow> string \<Rightarrow> 'o \<Rightarrow> 'o call list \<Rightarrow>
     FirebaseHostingSite promise \<times> 'o call list" where
  "sites_create tools subdomain project opts h =
     (on_sites_create tools h subdomain project opts, h @ [SitesCreate subdomain project opts])"

text \<open>
  What the user does at the prompts of inquirer is a parameter as well: the inputs for
  which the autocomplete prompt calls its \<^verbatim>\<open>source\<close> (one call each, in this order), the
  value it answers with (from the default it was given and the choices the source
  returned), and the answer of an input prompt (from its name and default).
\<close>

record 'v inquirer =
  autocomplete_queries :: "string list"
  autocomplete_answer :: "string option promise \<Rightarrow> 'v choice list promise list \<Rightarrow> 'v promise"
  input_answer :: "string \<Rightarrow> string option \<Rightarrow> string promise"

fun call_source :: "('s \<Rightarrow> string \<Rightarrow> 'r \<times> 's) \<Rightarrow> 's \<Rightarrow> string list \<Rightarrow> 'r list \<times> 's" where
  "call_source source s [] = ([], s)"
| "call_source source s (q # qs) =
     (case source s q of
        (r, s') \<Rightarrow> (case call_source source s' qs of (rs, s'') \<Rightarrow> (r # rs, s'')))"

text \<open>Line 127: \<^verbatim>\<open>autocomplete = (questions) => inquirer.prompt(questions)\<close>. The state \<open>s\<close> is
  the promise the source closes over, with the array it resolved to.\<close>

definition autocomplete ::
  "'v inquirer \<Rightarrow> ('s \<Rightarrow> string \<Rightarrow> 'v choice list promise \<times> 's) \<Rightarrow> string option promise \<Rightarrow> 's \<Rightarrow>
     'v promise \<times> 's" where
  "autocomplete ui source dflt s =
     (case call_source source s (autocomplete_queries ui) of
        (shown, s') \<Rightarrow> (autocomplete_answer ui dflt shown, s'))"

section \<open>Flows\<close>

text \<open>
  A flow takes the history of backend calls as it starts and returns, beside its result,
  the history as it ends.

  \<^verbatim>\<open>userPrompt\<close> (lines 129-152). \<open>list_answer\<close> is the answer of the list prompt, from
  its choices and its default.
\<close>

definition userPrompt ::
  "'o firebaseTools \<Rightarrow>
   ((string + account) list_choice list \<Rightarrow> account option \<Rightarrow> (string + account) promise) \<Rightarrow>
   'o \<Rightarrow> 'o call list \<Rightarrow> (string + account) promise \<times> 'o call list" where
  "userPrompt tools list_answer options h =
     (case login_list tools h of
        (Inl e, h1) \<Rightarrow> (Inl e, h1)
      | (Inr users, h1) \<Rightarrow>
          if users = None \<or> length (the users) = 0 then
            (case login tools None h1 of
               (Inl e, h2) \<Rightarrow> (Inl e, h2)
             | (Inr first, h2) \<Rightarrow>
                 (case login tools (Some options) h2 of
                    (Inl e, h3) \<Rightarrow> (Inl e, h3)
                  | (Inr second, h3) \<Rightarrow> (Inr (Inr second), h3)))
          else
            (case login tools (Some options) h1 of
               (Inl e, h2) \<Rightarrow> (Inl e, h2)
             | (Inr defaultUser, h2) \<Rightarrow>
                 (let choices =
                        map (\<lambda>entry. \<lparr>list_choice.name = email (user entry),
                                      list_choice.value = user entry\<rparr>) (the users);
                      newChoice = \<lparr>list_choice.name = ''[Login in with another account]'',
                                   list_choice.value = Inl NEW_OPTION\<rparr>;
                      dflt = map_option list_choice.value
                               (find (\<lambda>it. email (list_choice.value it) = email defaultUser) choices)
                  in (case list_answer
                             ([newChoice] @
                              map (\<lambda>c. \<lparr>list_choice.name = list_choice.name c,
                                        list_choice.value = Inr (list_choice.value c)\<rparr>) choices)
                             dflt of
                        Inl e \<Rightarrow> (Inl e, h2)
                      | Inr answer \<Rightarrow>
                          if answer = Inl NEW_OPTION then
                            (case login_add tools h2 of
                               (Inl e, h3) \<Rightarrow> (Inl e, h3)
                             | (Inr added, h3) \<Rightarrow> (Inr (Inr (user added)), h3))
                          else (Inr answer, h2)))))"

text \<open>
  \<^verbatim>\<open>projectPrompt\<close> (lines 154-179). The result \<^term>\<open>Inr None\<close> is the flow returning
  \<^verbatim>\<open>undefined\<close>: \<^verbatim>\<open>find\<close> gives \<^verbatim>\<open>undefined\<close> when no element passes, and the \<^verbatim>\<open>!\<close> after
  it is a type assertion that compiles to nothing.
\<close>

definition projectPrompt ::
  "FirebaseProject fuzzy_filter \<Rightarrow> 'o firebaseTools \<Rightarrow> string inquirer \<Rightarrow> string option \<Rightarrow> 'o \<Rightarrow>
     'o call list \<Rightarrow> FirebaseProject option promise \<times> 'o call list" where
  "projectPrompt fuzzy tools ui defaultProject options h =
     (case projects_list tools options h of
        (projects, h1) \<Rightarrow>
          (case autocomplete ui (searchProjects fuzzy) (Inr defaultProject) projects of
             (Inl e, projects') \<Rightarrow> (Inl e, h1)
           | (Inr selected, projects') \<Rightarrow>
               if selected = NEW_OPTION then
                 (case input_answer ui ''projectId'' None of
                    Inl e \<Rightarrow> (Inl e, h1)
                  | Inr newId \<Rightarrow>
                      (case input_answer ui ''displayName'' (Some newId) of
                         Inl e \<Rightarrow> (Inl e, h1)
                       | Inr newName \<Rightarrow>
                           (case projects_create tools newId newName options h1 of
                              (Inl e, h2) \<Rightarrow> (Inl e, h2)
                            | (Inr created, h2) \<Rightarrow> (Inr (Some created), h2))))
               else
                 (case projects' of
                    Inl e \<Rightarrow> (Inl e, h1)
                  | Inr resolved \<Rightarrow>
                      (Inr (find (\<lambda>it. projectId it = selected) resolved), h1))))"

text \<open>An \<^verbatim>\<open>Array.prototype.find\<close> whose callback may throw.\<close>

fun find_throwing :: "('a \<Rightarrow> error + bool) \<Rightarrow> 'a list \<Rightarrow> error + 'a option" where
  "find_throwing f [] = Inr None"
| "find_throwing f (x # xs) =
     (case f x of
        Inl e \<Rightarrow> Inl e
      | Inr b \<Rightarrow> if b then Inr (Some x) else find_throwing f xs)"

text \<open>\<^verbatim>\<open>appPrompt\<close> (lines 181-200).\<close>

definition appPrompt ::
  "FirebaseApp fuzzy_filter \<Rightarrow> 'o firebaseTools \<Rightarrow> string option inquirer \<Rightarrow> FirebaseProject \<Rightarrow>
     string option \<Rightarrow> 'o \<Rightarrow> 'o call list \<Rightarrow> FirebaseApp option promise \<times> 'o call list" where
  "appPrompt fuzzy tools ui proj defaultAppId options h =
     (let project = projectId proj
      in (case apps_list tools project options h of
            (apps, h1) \<Rightarrow>
              (case autocomplete ui (searchApps fuzzy) (Inr defaultAppId) apps of
                 (Inl e, apps') \<Rightarrow> (Inl e, h1)
               | (Inr selected, apps') \<Rightarrow>
                   if selected = Some NEW_OPTION then
                     (case input_answer ui ''displayName'' None of
                        Inl e \<Rightarrow> (Inl e, h1)
                      | Inr newName \<Rightarrow>
                          (case apps_create tools newName project options h1 of
                             (Inl e, h2) \<Rightarrow> (Inl e, h2)
                           | (Inr created, h2) \<Rightarrow> (Inr (Some created), h2)))
                   else
                     (case apps' of
                        Inl e \<Rightarrow> (Inl e, h1)
                      | Inr resolved \<Rightarrow>
                          (find_throwing
                             (\<lambda>it. case shortAppId (Some it) of
                                      Inl e \<Rightarrow> Inl e
                                    | Inr short \<Rightarrow> Inr (short = selected))
                             resolved,
                           h1)))))"

text \<open>
  \<^verbatim>\<open>sitePrompt\<close> (lines 202-233). \<open>sites_or_stub\<close> is the callback of \<^verbatim>\<open>then\<close> in lines
  203-215, \<open>sitePrompt_sites\<close> the promise \<^verbatim>\<open>sites\<close> made there by the call of the list
  operation, and \<open>sitePrompt_default\<close> the default of line 221.
\<close>

definition sites_or_stub :: "string \<Rightarrow> sites_response \<Rightarrow> FirebaseHostingSite list" where
  "sites_or_stub project it =
     (if length (sites it) = 0 then
        [\<lparr>FirebaseHostingSite.name = Some project,
          defaultUrl = ''https://'' @ project @ ''.web.app'',
          type = Some DEFAULT_SITE_TYPE,
          FirebaseHostingSite.appId = None\<rparr>]
      else sites it)"

definition sitePrompt_sites ::
  "'o firebaseTools \<Rightarrow> string \<Rightarrow> 'o \<Rightarrow> 'o call list \<Rightarrow>
     FirebaseHostingSite list promise \<times> 'o call list" where
  "sitePrompt_sites tools project options h =
     (case sites_list tools project options h of
        (Inl e, h1) \<Rightarrow> (Inl e, h1)
      | (Inr it, h1) \<Rightarrow> (Inr (sites_or_stub project it), h1))"

definition sitePrompt_default :: "FirebaseHostingSite list promise \<Rightarrow> string option promise" where
  "sitePrompt_default promise =
     (case promise of
        Inl e \<Rightarrow> Inl e
      | Inr it \<Rightarrow> shortSiteName (find (\<lambda>it. type it = Some DEFAULT_SITE_TYPE) it))"

definition sitePrompt ::
  "FirebaseHostingSite fuzzy_filter \<Rightarrow> 'o firebaseTools \<Rightarrow> string option inquirer \<Rightarrow>
     FirebaseProject \<Rightarrow> 'o \<Rightarrow> 'o call list \<Rightarrow>
     FirebaseHostingSite option promise \<times> 'o call list" where
  "sitePrompt fuzzy tools ui proj options h =
     (let project = projectId proj
      in (case sitePrompt_sites tools project options h of
            (promise, h1) \<Rightarrow>
              (case autocomplete ui (searchSites fuzzy) (sitePrompt_default promise) promise of
                 (Inl e, promise') \<Rightarrow> (Inl e, h1)
               | (Inr selected, promise') \<Rightarrow>
                   if selected = Some NEW_OPTION then
                     (case input_answer ui ''subdomain'' None of
                        Inl e \<Rightarrow> (Inl e, h1)
                      | Inr subdomain \<Rightarrow>
                          (case sites_create tools subdomain project options h1 of
                             (Inl e, h2) \<Rightarrow> (Inl e, h2)
                           | (Inr created, h2) \<Rightarrow> (Inr (Some created), h2)))
                   else
                     (case promise' of
                        Inl e \<Rightarrow> (Inl e, h1)
                      | Inr resolved \<Rightarrow>
                          (find_throwing
                             (\<lambda>it. case shortSiteName (Some it) of
                                      Inl e \<Rightarrow> Inl e
                                    | Inr short \<Rightarrow> Inr (short = selected))
                             resolved,
                           h1)))))"

text \<open>The calls of a backend list operation in a history.\<close>

fun is_list_call :: "'o call \<Rightarrow> bool" where
  "is_list_call (ProjectsList opts) = True"
| "is_list_call (AppsList project opts) = True"
| "is_list_call (SitesList project opts) = True"
| "is_list_call c = False"

section \<open>Example collaborators\<close>

text \<open>
  A backend and a user for the evaluated examples. The backend answers the first list call
  of a history with two projects, two web apps and the hosting sites it is given, where
  the identifier of the first record of each kind contains the identifier of the second;
  to a list call after another one it answers with the empty list. The user types the
  empty query and then \<^verbatim>\<open>ab\<close>, and picks the given value.
\<close>

definition example_tools :: "FirebaseHostingSite list \<Rightarrow> unit firebaseTools" where
  "example_tools hosting =
     \<lparr>on_login_list = (\<lambda>h. Inr (Some [])),
      on_login = (\<lambda>h opts. case opts of
                             None \<Rightarrow> Inr \<lparr>email = ''first@example.com''\<rparr>
                           | Some u \<Rightarrow> Inr \<lparr>email = ''second@example.com''\<rparr>),
      on_login_add = (\<lambda>h. Inr \<lparr>user = \<lparr>email = ''added@example.com''\<rparr>\<rparr>),
      on_projects_list =
        (\<lambda>h opts.
           if filter is_list_call h = [] then
             Inr [\<lparr>projectId = ''abcd'', FirebaseProject.displayName = ''Longer''\<rparr>,
                  \<lparr>projectId = ''abc'', FirebaseProject.displayName = ''Exact''\<rparr>]
           else Inr []),
      on_projects_create =
        (\<lambda>h newId newName opts.
           Inr \<lparr>projectId = newId, FirebaseProject.displayName = newName\<rparr>),
      on_apps_list =
        (\<lambda>h project opts.
           if filter is_list_call h = [] then
             Inr [\<lparr>FirebaseApp.appId = Some ''projects/abc/webApps/xabc'',
                   FirebaseApp.displayName = ''Longer''\<rparr>,
                  \<lparr>FirebaseApp.appId = Some ''projects/abc/webApps/abc'',
                   FirebaseApp.displayName = ''Exact''\<rparr>]
           else Inr []),
      on_apps_create =
        (\<lambda>h newName project opts.
           Inr \<lparr>FirebaseApp.appId = Some (''projects/'' @ project @ ''/webApps/new''),
                FirebaseApp.displayName = newName\<rparr>),
      on_sites_list =
        (\<lambda>h project opts.
           if filter is_list_call h = [] then Inr \<lparr>sites = hosting\<rparr> else Inr \<lparr>sites = []\<rparr>),
      on_sites_create =
        (\<lambda>h subdomain project opts.
           Inr \<lparr>FirebaseHostingSite.name = Some (''projects/'' @ project @ ''/sites/'' @ subdomain),
                defaultUrl = ''https://'' @ subdomain @ ''.web.app'',
                type = Some ''USER_SITE'',
                FirebaseHostingSite.appId = None\<rparr>)\<rparr>"

definition example_sites :: "FirebaseHostingSite list" where
  "example_sites =
     [\<lparr>FirebaseHostingSite.name = Some ''projects/abc/sites/abc-staging'',
       defaultUrl = ''https://abc-staging.web.app'',
       type = Some ''USER_SITE'',
       FirebaseHostingSite.appId = None\<rparr>,
      \<lparr>FirebaseHostingSite.name = Some ''projects/abc/sites/abc'',
       defaultUrl = ''https://abc.web.app'',
       type = Some DEFAULT_SITE_TYPE,
       FirebaseHostingSite.appId = None\<rparr>]"

definition example_ui :: "'v \<Rightarrow> 'v inquirer" where
  "example_ui picked =
     \<lparr>autocomplete_queries = ['''', ''ab''],
      autocomplete_answer = (\<lambda>dflt shown. Inr picked),
      input_answer = (\<lambda>question dflt. Inr ''fresh'')\<rparr>"

section \<open>Short identifiers: the last path segment\<close>

lemma split_not_Nil: "split c s \<noteq> []"
  by (induction s) (auto split: list.splits)

lemma split_no_sep: "c \<notin> set s \<Longrightarrow> split c s = [s]"
  by (induction s) auto

lemma split_sep_two: "c \<in> set s \<Longrightarrow> \<exists>w w' ws. split c s = w # w' # ws"
proof (induction s)
  case Nil
  then show ?case by simp
next
  case (Cons x xs)
  obtain v vs where v: "split c xs = v # vs"
    using split_not_Nil [of c xs] by (cases "split c xs") auto
  show ?case
  proof (cases "x = c")
    case True
    then show ?thesis using v by simp
  next
    case False
    then have "c \<in> set xs" using Cons.prems by simp
    then obtain w w' ws where "split c xs = w # w' # ws"
      using Cons.IH by blast
    then show ?thesis using False by simp
  qed
qed

lemma last_split_Cons:
  "last (split c (x # xs)) = (if x = c \<or> c \<in> set xs then last (split c xs) else x # xs)"
proof (cases "x = c")
  case True
  then show ?thesis by (simp add: split_not_Nil)
next
  case False
  show ?thesis
  proof (cases "c \<in> set xs")
    case True
    then obtain w w' ws where "split c xs = w # w' # ws"
      using split_sep_two by blast
    then show ?thesis using False True by simp
  next
    case False
    then show ?thesis using \<open>x \<noteq> c\<close> by (simp add: split_no_sep)
  qed
qed

lemma last_split_no_sep: "c \<notin> set (last (split c s))"
proof (induction s)
  case Nil
  then show ?case by simp
next
  case (Cons x xs)
  then show ?case unfolding last_split_Cons by auto
qed

lemma last_split_suffix: "c \<in> set s \<Longrightarrow> \<exists>pre. s = pre @ c # last (split c s)"
proof (induction s)
  case Nil
  then show ?case by simp
next
  case (Cons x xs)
  show ?case
  proof (cases "c \<in> set xs")
    case True
    then obtain pre where pre: "xs = pre @ c # last (split c xs)"
      using Cons.IH by blast
    have "last (split c (x # xs)) = last (split c xs)"
      using True by (simp only: last_split_Cons if_True simp_thms)
    then have "x # xs = (x # pre) @ c # last (split c (x # xs))"
      using pre by simp
    then show ?thesis by blast
  next
    case False
    then have "x = c" using Cons.prems by simp
    then have "x # xs = [] @ c # last (split c (x # xs))"
      using False by (simp add: split_not_Nil split_no_sep)
    then show ?thesis by blast
  qed
qed

lemma pop_split: "pop (split c s) = Some (last (split c s))"
  by (simp add: pop_def split_not_Nil)

text \<open>On a record that is there, neither function throws, and its value is read off the
  identifier.\<close>

lemma shortAppId_Some:
  "shortAppId (Some a) =
     Inr (case FirebaseApp.appId a of
            None \<Rightarrow> None
          | Some s \<Rightarrow> if s = [] then Some [] else Some (last (split CHR ''/'' s)))"
  by (simp add: shortAppId_def pop_split split: option.splits)

lemma shortSiteName_Some:
  "shortSiteName (Some a) =
     Inr (case FirebaseHostingSite.name a of
            None \<Rightarrow> None
          | Some s \<Rightarrow> if s = [] then Some [] else Some (last (split CHR ''/'' s)))"
  by (simp add: shortSiteName_def pop_split split: option.splits)

lemma last_segment:
  "\<exists>t. last (split c s) = t \<and> c \<notin> set t \<and> (if c \<in> set s then \<exists>pre. s = pre @ c # t else t = s)"
  using last_split_no_sep [of c s] last_split_suffix [of c s] split_no_sep [of c s]
  by (cases "c \<in> set s") auto

text \<open>
  Claim C10. \<open>shortAppId\<close> and \<open>shortSiteName\<close> never throw: on an undefined input and
  on a record whose \<^verbatim>\<open>appId\<close> (\<^verbatim>\<open>name\<close>) is absent they return \<^verbatim>\<open>undefined\<close>, on an empty
  one the empty string. On a non-empty identifier \<open>s\<close> they return the part \<open>t\<close> of \<open>s\<close>
  after its last \<^verbatim>\<open>/\<close>: \<open>t\<close> holds no \<^verbatim>\<open>/\<close> and \<open>s\<close> ends with \<^verbatim>\<open>/\<close> followed by \<open>t\<close>, or \<open>t\<close>
  is all of \<open>s\<close> when \<open>s\<close> holds no \<^verbatim>\<open>/\<close>.
\<close>

theorem short_ids_total:
  "(\<exists>v. shortAppId app = Inr v) \<and> (\<exists>v. shortSiteName site = Inr v) \<and>
   shortAppId None = Inr None \<and> shortSiteName None = Inr None \<and>
   (FirebaseApp.appId a = None \<longrightarrow> shortAppId (Some a) = Inr None) \<and>
   (FirebaseHostingSite.name b = None \<longrightarrow> shortSiteName (Some b) = Inr None) \<and>
   (FirebaseApp.appId a = Some [] \<longrightarrow> shortAppId (Some a) = Inr (Some [])) \<and>
   (FirebaseHostingSite.name b = Some [] \<longrightarrow> shortSiteName (Some b) = Inr (Some [])) \<and>
   (FirebaseApp.appId a = Some s \<and> s \<noteq> [] \<longrightarrow>
      (\<exists>t. shortAppId (Some a) = Inr (Some t) \<and> CHR ''/'' \<notin> set t \<and>
           (if CHR ''/'' \<in> set s then \<exists>pre. s = pre @ CHR ''/'' # t else t = s))) \<and>
   (FirebaseHostingSite.name b = Some s \<and> s \<noteq> [] \<longrightarrow>
      (\<exists>t. shortSiteName (Some b) = Inr (Some t) \<and> CHR ''/'' \<notin> set t \<and>
           (if CHR ''/'' \<in> set s then \<exists>pre. s = pre @ CHR ''/'' # t else t = s)))"
proof -
  have total_app: "\<exists>v. shortAppId app = Inr v"
  proof (cases app)
    case None
    then show ?thesis by (simp add: shortAppId_def)
  next
    case (Some x)
    then show ?thesis by (simp add: shortAppId_Some)
  qed
  have total_site: "\<exists>v. shortSiteName site = Inr v"
  proof (cases site)
    case None
    then show ?thesis by (simp add: shortSiteName_def)
  next
    case (Some x)
    then show ?thesis by (simp add: shortSiteName_Some)
  qed
  have seg: "\<exists>t. last (split CHR ''/'' s) = t \<and> CHR ''/'' \<notin> set t \<and>
           (if CHR ''/'' \<in> set s then \<exists>pre. s = pre @ CHR ''/'' # t else t = s)"
    by (rule last_segment)
  have app_seg: "FirebaseApp.appId a = Some s \<and> s \<noteq> [] \<longrightarrow>
      (\<exists>t. shortAppId (Some a) = Inr (Some t) \<and> CHR ''/'' \<notin> set t \<and>
           (if CHR ''/'' \<in> set s then \<exists>pre. s = pre @ CHR ''/'' # t else t = s))"
    using seg by (simp add: shortAppId_Some)
  have site_seg: "FirebaseHostingSite.name b = Some s \<and> s \<noteq> [] \<longrightarrow>
      (\<exists>t. shortSiteName (Some b) = Inr (Some t) \<and> CHR ''/'' \<notin> set t \<and>
           (if CHR ''/'' \<in> set s then \<exists>pre. s = pre @ CHR ''/'' # t else t = s))"
    using seg by (simp add: shortSiteName_Some)
  show ?thesis
    using total_app total_site app_seg site_seg
    by (simp add: shortAppId_Some shortSiteName_Some) (simp add: shortAppId_def shortSiteName_def)
qed

theorem short_ids_total_witness:
  "shortAppId (Some \<lparr>FirebaseApp.appId = Some ''projects/p1/webApps/1:22:web:abc'',
                     FirebaseApp.displayName = ''web''\<rparr>) = Inr (Some ''1:22:web:abc'') \<and>
   shortAppId (Some \<lparr>FirebaseApp.appId = Some ''plain'', FirebaseApp.displayName = ''web''\<rparr>)
     = Inr (Some ''plain'') \<and>
   shortAppId (Some \<lparr>FirebaseApp.appId = Some [], FirebaseApp.displayName = ''web''\<rparr>)
     = Inr (Some []) \<and>
   shortAppId (Some \<lparr>FirebaseApp.appId = None, FirebaseApp.displayName = ''web''\<rparr>) = Inr None \<and>
   shortAppId None = Inr None \<and>
   shortSiteName (Some \<lparr>FirebaseHostingSite.name = Some ''projects/p1/sites/my-site'',
                        defaultUrl = ''https://my-site.web.app'', type = Some ''USER_SITE'',
                        FirebaseHostingSite.appId = None\<rparr>) = Inr (Some ''my-site'') \<and>
   shortSiteName (Some \<lparr>FirebaseHostingSite.name = None, defaultUrl = ''u'', type = None,
                        FirebaseHostingSite.appId = None\<rparr>) = Inr None \<and>
   shortSiteName None = Inr None"
  using short_ids_total
    [of None None
        "\<lparr>FirebaseApp.appId = Some ''projects/p1/webApps/1:22:web:abc'',
          FirebaseApp.displayName = ''web''\<rparr>"
        "\<lparr>FirebaseHostingSite.name = Some ''projects/p1/sites/my-site'',
          defaultUrl = ''https://my-site.web.app'', type = Some ''USER_SITE'',
          FirebaseHostingSite.appId = None\<rparr>"
        "''projects/p1/webApps/1:22:web:abc''"]
  by (simp add: shortAppId_def shortSiteName_def pop_def)

section \<open>Normalising a filter result\<close>

text \<open>
  Claim C4. An element of the filter's result is taken for a wrapper exactly when the read
  of its field \<^verbatim>\<open>original\<close> is not \<^verbatim>\<open>undefined\<close>, and the normalisation step of each
  adapter gives the candidate record back in both shapes: from the record itself and from
  a wrapper around it.
\<close>

theorem normalize_roundtrip:
  "(\<not> isProject e) = (field_original e \<noteq> None) \<and>
   (\<not> isApp f) = (field_original f \<noteq> None) \<and>
   (\<not> isSite g) = (field_original g \<noteq> None) \<and>
   project_original (Raw p) = p \<and> project_original (FilterResult s i p) = p \<and>
   app_original (Raw a) = a \<and> app_original (FilterResult s i a) = a \<and>
   site_original (Raw h) = h \<and> site_original (FilterResult s i h) = h"
  by (simp add: isProject_def isApp_def isSite_def project_original_def app_original_def
      site_original_def)

section \<open>The array shared through the promise\<close>

lemma searchProjects_state:
  "snd (searchProjects fuzzy promise input) =
     (case promise of Inl e \<Rightarrow> Inl e | Inr projects \<Rightarrow> Inr (new_project # projects))"
  by (simp add: searchProjects_def Let_def split: sum.splits)

lemma searchApps_state:
  "snd (searchApps fuzzy promise input) =
     (case promise of Inl e \<Rightarrow> Inl e | Inr apps \<Rightarrow> Inr (new_app # apps))"
  by (simp add: searchApps_def Let_def split: sum.splits)

lemma searchSites_state:
  "snd (searchSites fuzzy promise input) =
     (case promise of Inl e \<Rightarrow> Inl e | Inr xs \<Rightarrow> Inr (new_site # xs))"
  by (simp add: searchSites_def Let_def split: sum.splits)

text \<open>Every call of the source leaves one more create-new record at the front.\<close>

lemma call_source_state:
  assumes step: "\<And>p q. snd (source p q) = (case p of Inl e \<Rightarrow> Inl e | Inr xs \<Rightarrow> Inr (new # xs))"
  shows "snd (call_source source promise qs) =
     (case promise of Inl e \<Rightarrow> Inl e | Inr xs \<Rightarrow> Inr (replicate (length qs) new @ xs))"
proof (induction qs arbitrary: promise)
  case Nil
  then show ?case by (simp split: sum.splits)
next
  case (Cons q qs)
  obtain r s' where r: "source promise q = (r, s')" by (cases "source promise q")
  then have s': "s' = (case promise of Inl e \<Rightarrow> Inl e | Inr xs \<Rightarrow> Inr (new # xs))"
    using step [of promise q] by simp
  have "snd (call_source source promise (q # qs)) = snd (call_source source s' qs)"
    using r by (simp split: prod.splits)
  also have "\<dots> = (case s' of Inl e \<Rightarrow> Inl e | Inr xs \<Rightarrow> Inr (replicate (length qs) new @ xs))"
    by (rule Cons.IH)
  also have "\<dots> = (case promise of Inl e \<Rightarrow> Inl e
                    | Inr xs \<Rightarrow> Inr (replicate (length (q # qs)) new @ xs))"
    by (simp add: s' replicate_app_Cons_same split: sum.splits)
  finally show ?case .
qed

lemma autocomplete_state:
  assumes step: "\<And>p q. snd (source p q) = (case p of Inl e \<Rightarrow> Inl e | Inr xs \<Rightarrow> Inr (new # xs))"
  shows "snd (autocomplete ui source dflt promise) =
     (case promise of Inl e \<Rightarrow> Inl e
      | Inr xs \<Rightarrow> Inr (replicate (length (autocomplete_queries ui)) new @ xs))"
  using call_source_state [of source new promise "autocomplete_queries ui", OF step]
  by (auto simp: autocomplete_def split: prod.splits)

lemma find_replicate_append:
  "\<not> P x \<Longrightarrow> find P (replicate n x @ xs) = find P xs"
  by (induction n) auto

lemma find_first: "\<forall>x\<in>set pre. \<not> P x \<Longrightarrow> P r \<Longrightarrow> find P (pre @ r # post) = Some r"
  by (induction pre) auto

lemma find_throwing_total:
  "find_throwing (\<lambda>it. Inr (P it)) xs = Inr (find P xs)"
  by (induction xs) auto

lemma find_app_eq:
  "find_throwing (\<lambda>it. case shortAppId (Some it) of Inl e \<Rightarrow> Inl e | Inr short \<Rightarrow> Inr (short = selected)) xs
   = Inr (find (\<lambda>it. shortAppId (Some it) = Inr selected) xs)"
proof -
  have "(\<lambda>it. case shortAppId (Some it) of Inl e \<Rightarrow> Inl e | Inr short \<Rightarrow> Inr (short = selected))
      = (\<lambda>it. Inr (shortAppId (Some it) = Inr selected))"
    by (rule ext) (simp add: shortAppId_Some)
  then show ?thesis by (simp only: find_throwing_total)
qed

lemma find_site_eq:
  "find_throwing (\<lambda>it. case shortSiteName (Some it) of Inl e \<Rightarrow> Inl e | Inr short \<Rightarrow> Inr (short = selected)) xs
   = Inr (find (\<lambda>it. shortSiteName (Some it) = Inr selected) xs)"
proof -
  have "(\<lambda>it. case shortSiteName (Some it) of Inl e \<Rightarrow> Inl e | Inr short \<Rightarrow> Inr (short = selected))
      = (\<lambda>it. Inr (shortSiteName (Some it) = Inr selected))"
    by (rule ext) (simp add: shortSiteName_Some)
  then show ?thesis by (simp only: find_throwing_total)
qed

lemma slash_not_in_NEW_OPTION: "CHR ''/'' \<notin> set NEW_OPTION"
  by (simp add: NEW_OPTION_def)

lemma short_new_app: "shortAppId (Some new_app) = Inr (Some NEW_OPTION)"
  using slash_not_in_NEW_OPTION
  by (simp add: shortAppId_Some new_app_def split_no_sep NEW_OPTION_def)

lemma short_new_site: "shortSiteName (Some new_site) = Inr (Some NEW_OPTION)"
  using slash_not_in_NEW_OPTION
  by (simp add: shortSiteName_Some new_site_def split_no_sep NEW_OPTION_def)

text \<open>A flow whose prompt answers a value other than the sentinel looks that value up in
  the array of its one list call, as the handler calls have left it; the create-new records
  in it do not carry the value.\<close>

lemma projectPrompt_lookup:
  assumes "on_projects_list tools h options = Inr projects"
    and "fst (autocomplete ui (searchProjects fuzzy) (Inr defaultProject) (Inr projects)) = Inr selected"
    and "selected \<noteq> NEW_OPTION"
  shows "projectPrompt fuzzy tools ui defaultProject options h =
     (Inr (find (\<lambda>it. projectId it = selected)
             (replicate (length (autocomplete_queries ui)) new_project @ projects)),
      h @ [ProjectsList options])"
proof -
  have state: "snd (autocomplete ui (searchProjects fuzzy) (Inr defaultProject) (Inr projects)) =
      Inr (replicate (length (autocomplete_queries ui)) new_project @ projects)"
    using autocomplete_state [of "searchProjects fuzzy" new_project ui "Inr defaultProject" "Inr projects"]
    by (simp add: searchProjects_state)
  have "autocomplete ui (searchProjects fuzzy) (Inr defaultProject) (Inr projects) =
      (Inr selected, Inr (replicate (length (autocomplete_queries ui)) new_project @ projects))"
    using assms(2) state by (simp add: prod_eq_iff)
  then show ?thesis
    using assms(1,3) by (simp add: projectPrompt_def projects_list_def)
qed

lemma projectPrompt_selected:
  assumes "on_projects_list tools h options = Inr projects"
    and "fst (autocomplete ui (searchProjects fuzzy) (Inr defaultProject) (Inr projects)) = Inr selected"
    and "selected \<noteq> NEW_OPTION"
  shows "projectPrompt fuzzy tools ui defaultProject options h =
     (Inr (find (\<lambda>it. projectId it = selected) projects), h @ [ProjectsList options])"
proof -
  have "find (\<lambda>it. projectId it = selected)
        (replicate (length (autocomplete_queries ui)) new_project @ projects) =
      find (\<lambda>it. projectId it = selected) projects"
    using assms(3) by (intro find_replicate_append) (auto simp: new_project_def)
  then show ?thesis
    using projectPrompt_lookup [OF assms] by simp
qed

lemma appPrompt_lookup:
  assumes "on_apps_list tools h (projectId proj) options = Inr apps"
    and "fst (autocomplete ui (searchApps fuzzy) (Inr defaultAppId) (Inr apps)) = Inr selected"
    and "selected \<noteq> Some NEW_OPTION"
  shows "appPrompt fuzzy tools ui proj defaultAppId options h =
     (Inr (find (\<lambda>it. shortAppId (Some it) = Inr selected)
             (replicate (length (autocomplete_queries ui)) new_app @ apps)),
      h @ [AppsList (projectId proj) options])"
proof -
  have state: "snd (autocomplete ui (searchApps fuzzy) (Inr defaultAppId) (Inr apps)) =
      Inr (replicate (length (autocomplete_queries ui)) new_app @ apps)"
    using autocomplete_state [of "searchApps fuzzy" new_app ui "Inr defaultAppId" "Inr apps"]
    by (simp add: searchApps_state)
  have "autocomplete ui (searchApps fuzzy) (Inr defaultAppId) (Inr apps) =
      (Inr selected, Inr (replicate (length (autocomplete_queries ui)) new_app @ apps))"
    using assms(2) state by (simp add: prod_eq_iff)
  then show ?thesis
    using assms(1,3) by (simp add: appPrompt_def apps_list_def find_app_eq)
qed

lemma appPrompt_selected:
  assumes "on_apps_list tools h (projectId proj) options = Inr apps"
    and "fst (autocomplete ui (searchApps fuzzy) (Inr defaultAppId) (Inr apps)) = Inr selected"
    and "selected \<noteq> Some NEW_OPTION"
  shows "appPrompt fuzzy tools ui proj defaultAppId options h =
     (Inr (find (\<lambda>it. shortAppId (Some it) = Inr selected) apps),
      h @ [AppsList (projectId proj) options])"
proof -
  have "find (\<lambda>it. shortAppId (Some it) = Inr selected)
        (replicate (length (autocomplete_queries ui)) new_app @ apps) =
      find (\<lambda>it. shortAppId (Some it) = Inr selected) apps"
    using assms(3) by (intro find_replicate_append) (auto simp: short_new_app)
  then show ?thesis
    using appPrompt_lookup [OF assms] by simp
qed

lemma sitePrompt_lookup:
  assumes "fst (sitePrompt_sites tools (projectId proj) options h) = Inr hosting"
    and "fst (autocomplete ui (searchSites fuzzy) (sitePrompt_default (Inr hosting)) (Inr hosting))
           = Inr selected"
    and "selected \<noteq> Some NEW_OPTION"
  shows "sitePrompt fuzzy tools ui proj options h =
     (Inr (find (\<lambda>it. shortSiteName (Some it) = Inr selected)
             (replicate (length (autocomplete_queries ui)) new_site @ hosting)),
      h @ [SitesList (projectId proj) options])"
proof -
  have pool: "sitePrompt_sites tools (projectId proj) options h =
      (Inr hosting, h @ [SitesList (projectId proj) options])"
    using assms(1)
    by (auto simp: sitePrompt_sites_def sites_list_def split: sum.splits)
  have state: "snd (autocomplete ui (searchSites fuzzy) (sitePrompt_default (Inr hosting)) (Inr hosting)) =
      Inr (replicate (length (autocomplete_queries ui)) new_site @ hosting)"
    using autocomplete_state [of "searchSites fuzzy" new_site ui "sitePrompt_default (Inr hosting)" "Inr hosting"]
    by (simp add: searchSites_state)
  have "autocomplete ui (searchSites fuzzy) (sitePrompt_default (Inr hosting)) (Inr hosting) =
      (Inr selected, Inr (replicate (length (autocomplete_queries ui)) new_site @ hosting))"
    using assms(2) state by (simp add: prod_eq_iff)
  then show ?thesis
    using pool assms(3) by (simp add: sitePrompt_def find_site_eq)
qed

lemma sitePrompt_selected:
  assumes "fst (sitePrompt_sites tools (projectId proj) options h) = Inr hosting"
    and "fst (autocomplete ui (searchSites fuzzy) (sitePrompt_default (Inr hosting)) (Inr hosting))
           = Inr selected"
    and "selected \<noteq> Some NEW_OPTION"
  shows "sitePrompt fuzzy tools ui proj options h =
     (Inr (find (\<lambda>it. shortSiteName (Some it) = Inr selected) hosting),
      h @ [SitesList (projectId proj) options])"
proof -
  have "find (\<lambda>it. shortSiteName (Some it) = Inr selected)
        (replicate (length (autocomplete_queries ui)) new_site @ hosting) =
      find (\<lambda>it. shortSiteName (Some it) = Inr selected) hosting"
    using assms(3) by (intro find_replicate_append) (auto simp: short_new_site)
  then show ?thesis
    using sitePrompt_lookup [OF assms] by simp
qed

text \<open>The calls a flow adds to the history: the list call, and after it at most the create
  call.\<close>

lemma projectPrompt_history:
  "snd (projectPrompt fuzzy tools ui defaultProject options h) = h @ [ProjectsList options] \<or>
   (\<exists>newId newName. snd (projectPrompt fuzzy tools ui defaultProject options h)
      = h @ [ProjectsList options, ProjectsCreate newId newName options])"
proof -
  obtain answer state where
    "autocomplete ui (searchProjects fuzzy) (Inr defaultProject) (on_projects_list tools h options)
       = (answer, state)"
    by (cases "autocomplete ui (searchProjects fuzzy) (Inr defaultProject)
                 (on_projects_list tools h options)")
  then show ?thesis
    by (cases answer; cases state; cases "input_answer ui ''projectId'' None")
       (auto simp: projectPrompt_def projects_list_def projects_create_def split: sum.splits)
qed

lemma appPrompt_history:
  "snd (appPrompt fuzzy tools ui proj defaultAppId options h)
     = h @ [AppsList (projectId proj) options] \<or>
   (\<exists>newName. snd (appPrompt fuzzy tools ui proj defaultAppId options h)
      = h @ [AppsList (projectId proj) options, AppsCreate newName (projectId proj) options])"
proof -
  obtain answer state where
    "autocomplete ui (searchApps fuzzy) (Inr defaultAppId)
       (on_apps_list tools h (projectId proj) options) = (answer, state)"
    by (cases "autocomplete ui (searchApps fuzzy) (Inr defaultAppId)
                 (on_apps_list tools h (projectId proj) options)")
  then show ?thesis
    by (cases answer; cases state; cases "input_answer ui ''displayName'' None")
       (auto simp: appPrompt_def apps_list_def apps_create_def Let_def split: sum.splits)
qed

lemma sitePrompt_history:
  "snd (sitePrompt fuzzy tools ui proj options h)
     = h @ [SitesList (projectId proj) options] \<or>
   (\<exists>subdomain. snd (sitePrompt fuzzy tools ui proj options h)
      = h @ [SitesList (projectId proj) options, SitesCreate subdomain (projectId proj) options])"
proof -
  obtain promise where pool:
    "sitePrompt_sites tools (projectId proj) options h
       = (promise, h @ [SitesList (projectId proj) options])"
    by (cases "on_sites_list tools h (projectId proj) options")
       (simp_all add: sitePrompt_sites_def sites_list_def)
  obtain answer state where
    "autocomplete ui (searchSites fuzzy) (sitePrompt_default promise) promise = (answer, state)"
    by (cases "autocomplete ui (searchSites fuzzy) (sitePrompt_default promise) promise")
  then show ?thesis
    using pool
    by (cases answer; cases state; cases "input_answer ui ''subdomain'' None")
       (auto simp: sitePrompt_def sites_create_def Let_def split: sum.splits)
qed

lemma sitePrompt_sites_eq:
  "on_sites_list tools h project options = Inr it \<Longrightarrow>
   sitePrompt_sites tools project options h =
     (Inr (sites_or_stub project it), h @ [SitesList project options])"
  by (simp add: sitePrompt_sites_def sites_list_def)

section \<open>The choices of the adapters\<close>

lemma map_throwing_total: "map_throwing (\<lambda>x. Inr (f x)) xs = Inr (map f xs)"
  by (induction xs) auto

lemma project_choice_eq:
  "project_choice e =
     \<lparr>choice.name = FirebaseProject.displayName (project_original e),
      title = FirebaseProject.displayName (project_original e),
      choice.value = projectId (project_original e)\<rparr>"
  by (simp add: project_choice_def Let_def)

lemma app_choice_eq:
  "app_choice =
     (\<lambda>e. Inr \<lparr>choice.name = FirebaseApp.displayName (app_original e),
               title = FirebaseApp.displayName (app_original e),
               choice.value = projr (shortAppId (Some (app_original e)))\<rparr>)"
  by (rule ext) (simp add: app_choice_def Let_def shortAppId_Some)

lemma site_choice_eq:
  "site_choice =
     (\<lambda>e. Inr \<lparr>choice.name = defaultUrl (site_original e),
               title = defaultUrl (site_original e),
               choice.value = projr (shortSiteName (Some (site_original e)))\<rparr>)"
  by (rule ext) (simp add: site_choice_def Let_def shortSiteName_Some)

lemma searchProjects_choices:
  "fst (searchProjects fuzzy (Inr projects) input) =
     Inr (map (\<lambda>p. \<lparr>choice.name = FirebaseProject.displayName p,
                     title = FirebaseProject.displayName p,
                     choice.value = projectId p\<rparr>)
            (map project_original (fuzzy input project_extract (new_project # projects))))"
  by (simp add: searchProjects_def Let_def project_choice_eq comp_def)

lemma searchApps_choices:
  "fst (searchApps fuzzy (Inr apps) input) =
     Inr (map (\<lambda>a. \<lparr>choice.name = FirebaseApp.displayName a,
                     title = FirebaseApp.displayName a,
                     choice.value = projr (shortAppId (Some a))\<rparr>)
            (map app_original (fuzzy input FirebaseApp.displayName (new_app # apps))))"
  by (simp add: searchApps_def Let_def app_choice_eq map_throwing_total comp_def)

lemma searchSites_choices:
  "fst (searchSites fuzzy (Inr hosting) input) =
     Inr (map (\<lambda>h. \<lparr>choice.name = defaultUrl h,
                     title = defaultUrl h,
                     choice.value = projr (shortSiteName (Some h))\<rparr>)
            (map site_original (fuzzy input defaultUrl (new_site # hosting))))"
  by (simp add: searchSites_def Let_def site_choice_eq map_throwing_total comp_def)

text \<open>
  Claim C2 asks that a call of the query handler leaves the array the promise resolved to
  as it was. The adapters do not: \<^verbatim>\<open>unshift\<close> puts the create-new record into that very
  array, so after every call of the handler the array is one element longer, and a second
  call on the same promise already finds, and offers, the record of the first. The run
  below is the empty query asked twice of \<open>searchProjects\<close> over one project.
\<close>

theorem adapters_prepend_in_place:
  "snd (searchProjects fuzzy (Inr projects) input) = Inr (new_project # projects) \<and>
   snd (searchApps fuzzy' (Inr apps) input) = Inr (new_app # apps) \<and>
   snd (searchSites fuzzy'' (Inr hosting) input) = Inr (new_site # hosting) \<and>
   call_source (searchProjects subseq_filter)
       (Inr [\<lparr>projectId = ''p1'', FirebaseProject.displayName = ''P One''\<rparr>]) ['''', '''']
     = ([Inr [\<lparr>choice.name = ''[CREATE NEW PROJECT]'', title = ''[CREATE NEW PROJECT]'',
               choice.value = NEW_OPTION\<rparr>,
              \<lparr>choice.name = ''P One'', title = ''P One'', choice.value = ''p1''\<rparr>],
         Inr [\<lparr>choice.name = ''[CREATE NEW PROJECT]'', title = ''[CREATE NEW PROJECT]'',
               choice.value = NEW_OPTION\<rparr>,
              \<lparr>choice.name = ''[CREATE NEW PROJECT]'', title = ''[CREATE NEW PROJECT]'',
               choice.value = NEW_OPTION\<rparr>,
              \<lparr>choice.name = ''P One'', title = ''P One'', choice.value = ''p1''\<rparr>]],
        Inr [new_project, new_project,
             \<lparr>projectId = ''p1'', FirebaseProject.displayName = ''P One''\<rparr>])"
proof -
  have run: "call_source (searchProjects subseq_filter)
       (Inr [\<lparr>projectId = ''p1'', FirebaseProject.displayName = ''P One''\<rparr>]) ['''', '''']
     = ([Inr [\<lparr>choice.name = ''[CREATE NEW PROJECT]'', title = ''[CREATE NEW PROJECT]'',
               choice.value = NEW_OPTION\<rparr>,
              \<lparr>choice.name = ''P One'', title = ''P One'', choice.value = ''p1''\<rparr>],
         Inr [\<lparr>choice.name = ''[CREATE NEW PROJECT]'', title = ''[CREATE NEW PROJECT]'',
               choice.value = NEW_OPTION\<rparr>,
              \<lparr>choice.name = ''[CREATE NEW PROJECT]'', title = ''[CREATE NEW PROJECT]'',
               choice.value = NEW_OPTION\<rparr>,
              \<lparr>choice.name = ''P One'', title = ''P One'', choice.value = ''p1''\<rparr>]],
        Inr [new_project, new_project,
             \<lparr>projectId = ''p1'', FirebaseProject.displayName = ''P One''\<rparr>])"
    by (simp add: searchProjects_def project_choice_eq subseq_filter_def new_project_def
        project_original_def isProject_def)
  show ?thesis
    using run by (simp add: searchProjects_state searchApps_state searchSites_state)
qed

text \<open>
  Claim C3, as amended. The create-new record goes through the filter like every other
  candidate. For every candidate list and every query for which the filter keeps the
  prepended create-new record, the choices each adapter returns contain a choice whose
  value is the sentinel \<^verbatim>\<open>(~~new~~)\<close>.
\<close>

theorem create_new_offered_when_kept:
  "(new_project \<in> project_original ` set (fuzzy input project_extract (new_project # projects)) \<longrightarrow>
      (\<exists>choices. fst (searchProjects fuzzy (Inr projects) input) = Inr choices \<and>
                 NEW_OPTION \<in> choice.value ` set choices)) \<and>
   (new_app \<in> app_original ` set (fuzzy' input FirebaseApp.displayName (new_app # apps)) \<longrightarrow>
      (\<exists>choices. fst (searchApps fuzzy' (Inr apps) input) = Inr choices \<and>
                 Some NEW_OPTION \<in> choice.value ` set choices)) \<and>
   (new_site \<in> site_original ` set (fuzzy'' input defaultUrl (new_site # hosting)) \<longrightarrow>
      (\<exists>choices. fst (searchSites fuzzy'' (Inr hosting) input) = Inr choices \<and>
                 Some NEW_OPTION \<in> choice.value ` set choices))"
proof (intro conjI impI)
  assume "new_project \<in> project_original ` set (fuzzy input project_extract (new_project # projects))"
  then have "projectId new_project \<in> projectId ` project_original `
      set (fuzzy input project_extract (new_project # projects))"
    by (rule imageI)
  moreover have "projectId new_project = NEW_OPTION"
    by (simp add: new_project_def)
  ultimately have "NEW_OPTION \<in> projectId ` project_original `
      set (fuzzy input project_extract (new_project # projects))"
    by (simp only:)
  then show "\<exists>choices. fst (searchProjects fuzzy (Inr projects) input) = Inr choices \<and>
                 NEW_OPTION \<in> choice.value ` set choices"
    by (simp add: searchProjects_choices image_image)
next
  assume "new_app \<in> app_original ` set (fuzzy' input FirebaseApp.displayName (new_app # apps))"
  then have "projr (shortAppId (Some new_app)) \<in> (\<lambda>a. projr (shortAppId (Some a))) ` app_original `
      set (fuzzy' input FirebaseApp.displayName (new_app # apps))"
    by (rule imageI)
  moreover have "projr (shortAppId (Some new_app)) = Some NEW_OPTION"
    by (simp add: short_new_app)
  ultimately have "Some NEW_OPTION \<in> (\<lambda>a. projr (shortAppId (Some a))) ` app_original `
      set (fuzzy' input FirebaseApp.displayName (new_app # apps))"
    by (simp only:)
  then show "\<exists>choices. fst (searchApps fuzzy' (Inr apps) input) = Inr choices \<and>
                 Some NEW_OPTION \<in> choice.value ` set choices"
    by (simp add: searchApps_choices image_image)
next
  assume "new_site \<in> site_original ` set (fuzzy'' input defaultUrl (new_site # hosting))"
  then have "projr (shortSiteName (Some new_site)) \<in> (\<lambda>a. projr (shortSiteName (Some a))) ` site_original `
      set (fuzzy'' input defaultUrl (new_site # hosting))"
    by (rule imageI)
  moreover have "projr (shortSiteName (Some new_site)) = Some NEW_OPTION"
    by (simp add: short_new_site)
  ultimately have "Some NEW_OPTION \<in> (\<lambda>a. projr (shortSiteName (Some a))) ` site_original `
      set (fuzzy'' input defaultUrl (new_site # hosting))"
    by (simp only:)
  then show "\<exists>choices. fst (searchSites fuzzy'' (Inr hosting) input) = Inr choices \<and>
                 Some NEW_OPTION \<in> choice.value ` set choices"
    by (simp add: searchSites_choices image_image)
qed

theorem create_new_offered_when_kept_witness:
  "fst (searchProjects subseq_filter
          (Inr [\<lparr>projectId = ''p1'', FirebaseProject.displayName = ''P One''\<rparr>]) ''NEW'')
     = Inr [\<lparr>choice.name = ''[CREATE NEW PROJECT]'', title = ''[CREATE NEW PROJECT]'',
             choice.value = NEW_OPTION\<rparr>] \<and>
   fst (searchApps subseq_filter
          (Inr [\<lparr>FirebaseApp.appId = Some ''projects/p1/webApps/w1'',
                 FirebaseApp.displayName = ''Shop''\<rparr>]) ''NEW'')
     = Inr [\<lparr>choice.name = ''[CREATE NEW APP]'', title = ''[CREATE NEW APP]'',
             choice.value = Some NEW_OPTION\<rparr>] \<and>
   fst (searchSites subseq_filter (Inr example_sites) ''NEW'')
     = Inr [\<lparr>choice.name = ''[CREATE NEW SITE]'', title = ''[CREATE NEW SITE]'',
             choice.value = Some NEW_OPTION\<rparr>]"
  using create_new_offered_when_kept
    [where fuzzy = subseq_filter and input = "''NEW''"
       and projects = "[\<lparr>projectId = ''p1'', FirebaseProject.displayName = ''P One''\<rparr>]"
       and fuzzy' = subseq_filter
       and apps = "[\<lparr>FirebaseApp.appId = Some ''projects/p1/webApps/w1'',
                      FirebaseApp.displayName = ''Shop''\<rparr>]"
       and fuzzy'' = subseq_filter and hosting = example_sites]
  by (simp add: searchProjects_choices searchApps_choices searchSites_choices subseq_filter_def
      new_project_def new_app_def new_site_def project_extract_def example_sites_def
      NEW_OPTION_def project_original_def app_original_def site_original_def
      isProject_def isApp_def isSite_def shortAppId_def shortSiteName_def pop_def)

text \<open>
  For a query that the text of the create-new record does not match there is no such
  choice: over the project \<^verbatim>\<open>p1\<close>, the query \<^verbatim>\<open>p1\<close> returns the choice of that project
  alone.
\<close>

theorem create_new_filtered_out_counterexample:
  "fst (searchProjects subseq_filter
          (Inr [\<lparr>projectId = ''p1'', FirebaseProject.displayName = ''P One''\<rparr>]) ''p1'')
     = Inr [\<lparr>choice.name = ''P One'', title = ''P One'', choice.value = ''p1''\<rparr>] \<and>
   ''p1'' \<noteq> NEW_OPTION"
  by (simp add: searchProjects_choices subseq_filter_def new_project_def project_extract_def
      NEW_OPTION_def project_original_def isProject_def)

text \<open>The array after any number of handler calls.\<close>

lemma searchProjects_calls_state:
  "snd (call_source (searchProjects fuzzy) (Inr projects) qs) =
     Inr (replicate (length qs) new_project @ projects)"
  using call_source_state [of "searchProjects fuzzy" new_project "Inr projects" qs]
  by (simp add: searchProjects_state)

lemma searchApps_calls_state:
  "snd (call_source (searchApps fuzzy) (Inr apps) qs) = Inr (replicate (length qs) new_app @ apps)"
  using call_source_state [of "searchApps fuzzy" new_app "Inr apps" qs]
  by (simp add: searchApps_state)

lemma searchSites_calls_state:
  "snd (call_source (searchSites fuzzy) (Inr hosting) qs) =
     Inr (replicate (length qs) new_site @ hosting)"
  using call_source_state [of "searchSites fuzzy" new_site "Inr hosting" qs]
  by (simp add: searchSites_state)

text \<open>
  Claim C5 asks that on the empty query the handler returns a choice for each of the
  original candidates and exactly one create-new choice before them. The handler leaves
  its create-new record in the shared array (claim C2), so that holds for the first call
  on a promise only: after \<open>n\<close> earlier calls the empty query, for which the filter keeps
  all candidates in their order, returns \<open>n + 1\<close> create-new choices before the choices of
  the candidates.
\<close>

theorem empty_query_repeats_create_new:
  "(map project_original
      (fuzzy [] project_extract (replicate (Suc (length qs)) new_project @ projects))
      = replicate (Suc (length qs)) new_project @ projects \<longrightarrow>
    fst (searchProjects fuzzy (snd (call_source (searchProjects fuzzy) (Inr projects) qs)) []) =
      Inr (replicate (Suc (length qs))
             \<lparr>choice.name = ''[CREATE NEW PROJECT]'', title = ''[CREATE NEW PROJECT]'',
              choice.value = NEW_OPTION\<rparr> @
           map (\<lambda>p. \<lparr>choice.name = FirebaseProject.displayName p,
                      title = FirebaseProject.displayName p,
                      choice.value = projectId p\<rparr>) projects)) \<and>
   (map app_original
      (fuzzy' [] FirebaseApp.displayName (replicate (Suc (length qs)) new_app @ apps))
      = replicate (Suc (length qs)) new_app @ apps \<longrightarrow>
    fst (searchApps fuzzy' (snd (call_source (searchApps fuzzy') (Inr apps) qs)) []) =
      Inr (replicate (Suc (length qs))
             \<lparr>choice.name = ''[CREATE NEW APP]'', title = ''[CREATE NEW APP]'',
              choice.value = Some NEW_OPTION\<rparr> @
           map (\<lambda>a. \<lparr>choice.name = FirebaseApp.displayName a,
                      title = FirebaseApp.displayName a,
                      choice.value = projr (shortAppId (Some a))\<rparr>) apps)) \<and>
   (map site_original
      (fuzzy'' [] defaultUrl (replicate (Suc (length qs)) new_site @ hosting))
      = replicate (Suc (length qs)) new_site @ hosting \<longrightarrow>
    fst (searchSites fuzzy'' (snd (call_source (searchSites fuzzy'') (Inr hosting) qs)) []) =
      Inr (replicate (Suc (length qs))
             \<lparr>choice.name = ''[CREATE NEW SITE]'', title = ''[CREATE NEW SITE]'',
              choice.value = Some NEW_OPTION\<rparr> @
           map (\<lambda>h. \<lparr>choice.name = defaultUrl h,
                      title = defaultUrl h,
                      choice.value = projr (shortSiteName (Some h))\<rparr>) hosting))"
proof (intro conjI impI)
  assume "map project_original
      (fuzzy [] project_extract (replicate (Suc (length qs)) new_project @ projects))
      = replicate (Suc (length qs)) new_project @ projects"
  then show "fst (searchProjects fuzzy (snd (call_source (searchProjects fuzzy) (Inr projects) qs)) []) =
      Inr (replicate (Suc (length qs))
             \<lparr>choice.name = ''[CREATE NEW PROJECT]'', title = ''[CREATE NEW PROJECT]'',
              choice.value = NEW_OPTION\<rparr> @
           map (\<lambda>p. \<lparr>choice.name = FirebaseProject.displayName p,
                      title = FirebaseProject.displayName p,
                      choice.value = projectId p\<rparr>) projects)"
    by (simp add: searchProjects_calls_state searchProjects_choices map_replicate)
       (simp add: new_project_def)
next
  assume "map app_original
      (fuzzy' [] FirebaseApp.displayName (replicate (Suc (length qs)) new_app @ apps))
      = replicate (Suc (length qs)) new_app @ apps"
  then show "fst (searchApps fuzzy' (snd (call_source (searchApps fuzzy') (Inr apps) qs)) []) =
      Inr (replicate (Suc (length qs))
             \<lparr>choice.name = ''[CREATE NEW APP]'', title = ''[CREATE NEW APP]'',
              choice.value = Some NEW_OPTION\<rparr> @
           map (\<lambda>a. \<lparr>choice.name = FirebaseApp.displayName a,
                      title = FirebaseApp.displayName a,
                      choice.value = projr (shortAppId (Some a))\<rparr>) apps)"
    by (simp add: searchApps_calls_state searchApps_choices map_replicate short_new_app)
       (simp add: new_app_def)
next
  assume "map site_original
      (fuzzy'' [] defaultUrl (replicate (Suc (length qs)) new_site @ hosting))
      = replicate (Suc (length qs)) new_site @ hosting"
  then show "fst (searchSites fuzzy'' (snd (call_source (searchSites fuzzy'') (Inr hosting) qs)) []) =
      Inr (replicate (Suc (length qs))
             \<lparr>choice.name = ''[CREATE NEW SITE]'', title = ''[CREATE NEW SITE]'',
              choice.value = Some NEW_OPTION\<rparr> @
           map (\<lambda>h. \<lparr>choice.name = defaultUrl h,
                      title = defaultUrl h,
                      choice.value = projr (shortSiteName (Some h))\<rparr>) hosting)"
    by (simp add: searchSites_calls_state searchSites_choices map_replicate short_new_site)
       (simp add: new_site_def)
qed

theorem empty_query_repeats_create_new_witness:
  "fst (searchProjects subseq_filter
          (snd (call_source (searchProjects subseq_filter)
                  (Inr [\<lparr>projectId = ''p1'', FirebaseProject.displayName = ''P One''\<rparr>]) [''p'']))
          [])
     = Inr [\<lparr>choice.name = ''[CREATE NEW PROJECT]'', title = ''[CREATE NEW PROJECT]'',
             choice.value = NEW_OPTION\<rparr>,
            \<lparr>choice.name = ''[CREATE NEW PROJECT]'', title = ''[CREATE NEW PROJECT]'',
             choice.value = NEW_OPTION\<rparr>,
            \<lparr>choice.name = ''P One'', title = ''P One'', choice.value = ''p1''\<rparr>] \<and>
   fst (searchApps subseq_filter
          (snd (call_source (searchApps subseq_filter)
                  (Inr [\<lparr>FirebaseApp.appId = Some ''projects/p1/webApps/w1'',
                         FirebaseApp.displayName = ''Shop''\<rparr>]) [''p'']))
          [])
     = Inr [\<lparr>choice.name = ''[CREATE NEW APP]'', title = ''[CREATE NEW APP]'',
             choice.value = Some NEW_OPTION\<rparr>,
            \<lparr>choice.name = ''[CREATE NEW APP]'', title = ''[CREATE NEW APP]'',
             choice.value = Some NEW_OPTION\<rparr>,
            \<lparr>choice.name = ''Shop'', title = ''Shop'', choice.value = Some ''w1''\<rparr>] \<and>
   fst (searchSites subseq_filter
          (snd (call_source (searchSites subseq_filter) (Inr example_sites) [''p''])) [])
     = Inr [\<lparr>choice.name = ''[CREATE NEW SITE]'', title = ''[CREATE NEW SITE]'',
             choice.value = Some NEW_OPTION\<rparr>,
            \<lparr>choice.name = ''[CREATE NEW SITE]'', title = ''[CREATE NEW SITE]'',
             choice.value = Some NEW_OPTION\<rparr>,
            \<lparr>choice.name = ''https://abc-staging.web.app'',
             title = ''https://abc-staging.web.app'', choice.value = Some ''abc-staging''\<rparr>,
            \<lparr>choice.name = ''https://abc.web.app'', title = ''https://abc.web.app'',
             choice.value = Some ''abc''\<rparr>]"
  using empty_query_repeats_create_new
    [where fuzzy = subseq_filter and qs = "[''p'']"
       and projects = "[\<lparr>projectId = ''p1'', FirebaseProject.displayName = ''P One''\<rparr>]"
       and fuzzy' = subseq_filter
       and apps = "[\<lparr>FirebaseApp.appId = Some ''projects/p1/webApps/w1'',
                      FirebaseApp.displayName = ''Shop''\<rparr>]"
       and fuzzy'' = subseq_filter and hosting = example_sites]
  by (simp add: subseq_filter_def new_project_def new_app_def new_site_def example_sites_def
      NEW_OPTION_def project_original_def app_original_def site_original_def
      isProject_def isApp_def isSite_def shortAppId_def shortSiteName_def pop_def)

section \<open>The flows\<close>

text \<open>
  Claim C6. Whatever the user does at the prompts, and however often the prompt asks the
  query handler, a resource flow adds exactly one call of the backend's list operation to
  the history. The handler and the final lookup read the promise of that one call: when
  the prompt, shown the choices the handler computes from the answer to that call, picks a
  value other than the sentinel, the lookup searches the array of that answer with the
  create-new records the handler calls have put in front. The example backend answers a
  second list call with the empty list.
\<close>

theorem list_called_once:
  "(filter is_list_call
      (drop (length h) (snd (projectPrompt fuzzy tools ui defaultProject options h)))
      = [ProjectsList options] \<and>
    (on_projects_list tools h options = Inr projects \<and>
     fst (autocomplete ui (searchProjects fuzzy) (Inr defaultProject) (Inr projects)) = Inr selected \<and>
     selected \<noteq> NEW_OPTION \<longrightarrow>
       projectPrompt fuzzy tools ui defaultProject options h =
         (Inr (find (\<lambda>it. projectId it = selected)
                 (replicate (length (autocomplete_queries ui)) new_project @ projects)),
          h @ [ProjectsList options]))) \<and>
   (filter is_list_call
      (drop (length h) (snd (appPrompt fuzzy' tools ui' proj defaultAppId options h)))
      = [AppsList (projectId proj) options] \<and>
    (on_apps_list tools h (projectId proj) options = Inr apps \<and>
     fst (autocomplete ui' (searchApps fuzzy') (Inr defaultAppId) (Inr apps)) = Inr picked \<and>
     picked \<noteq> Some NEW_OPTION \<longrightarrow>
       appPrompt fuzzy' tools ui' proj defaultAppId options h =
         (Inr (find (\<lambda>it. shortAppId (Some it) = Inr picked)
                 (replicate (length (autocomplete_queries ui')) new_app @ apps)),
          h @ [AppsList (projectId proj) options]))) \<and>
   (filter is_list_call
      (drop (length h) (snd (sitePrompt fuzzy'' tools ui'' proj options h)))
      = [SitesList (projectId proj) options] \<and>
    (on_sites_list tools h (projectId proj) options = Inr it \<and>
     fst (autocomplete ui'' (searchSites fuzzy'')
            (sitePrompt_default (Inr (sites_or_stub (projectId proj) it)))
            (Inr (sites_or_stub (projectId proj) it))) = Inr chosen \<and>
     chosen \<noteq> Some NEW_OPTION \<longrightarrow>
       sitePrompt fuzzy'' tools ui'' proj options h =
         (Inr (find (\<lambda>it. shortSiteName (Some it) = Inr chosen)
                 (replicate (length (autocomplete_queries ui'')) new_site @
                  sites_or_stub (projectId proj) it)),
          h @ [SitesList (projectId proj) options])))"
proof -
  have p1: "filter is_list_call
      (drop (length h) (snd (projectPrompt fuzzy tools ui defaultProject options h)))
      = [ProjectsList options]"
    using projectPrompt_history [of fuzzy tools ui defaultProject options h] by auto
  have a1: "filter is_list_call
      (drop (length h) (snd (appPrompt fuzzy' tools ui' proj defaultAppId options h)))
      = [AppsList (projectId proj) options]"
    using appPrompt_history [of fuzzy' tools ui' proj defaultAppId options h] by auto
  have s1: "filter is_list_call
      (drop (length h) (snd (sitePrompt fuzzy'' tools ui'' proj options h)))
      = [SitesList (projectId proj) options]"
    using sitePrompt_history [of fuzzy'' tools ui'' proj options h] by auto
  have s2: "on_sites_list tools h (projectId proj) options = Inr it \<Longrightarrow>
      fst (sitePrompt_sites tools (projectId proj) options h)
        = Inr (sites_or_stub (projectId proj) it)"
    by (simp add: sitePrompt_sites_eq)
  show ?thesis
    using p1 a1 s1
      projectPrompt_lookup [of tools h options projects ui fuzzy defaultProject selected]
      appPrompt_lookup [of tools h proj options apps ui' fuzzy' defaultAppId picked]
      sitePrompt_lookup [of tools proj options h "sites_or_stub (projectId proj) it" ui'' fuzzy'' chosen]
      s2
    by blast
qed

theorem list_called_once_witness:
  "projectPrompt subseq_filter (example_tools example_sites) (example_ui ''abc'') None () []
     = (Inr (Some \<lparr>projectId = ''abc'', FirebaseProject.displayName = ''Exact''\<rparr>),
        [ProjectsList ()]) \<and>
   appPrompt subseq_filter (example_tools example_sites) (example_ui (Some ''xabc''))
       \<lparr>projectId = ''abc'', FirebaseProject.displayName = ''Exact''\<rparr> None () []
     = (Inr (Some \<lparr>FirebaseApp.appId = Some ''projects/abc/webApps/xabc'',
                    FirebaseApp.displayName = ''Longer''\<rparr>),
        [AppsList ''abc'' ()]) \<and>
   sitePrompt subseq_filter (example_tools example_sites) (example_ui (Some ''abc-staging''))
       \<lparr>projectId = ''abc'', FirebaseProject.displayName = ''Exact''\<rparr> () []
     = (Inr (Some \<lparr>FirebaseHostingSite.name = Some ''projects/abc/sites/abc-staging'',
                    defaultUrl = ''https://abc-staging.web.app'',
                    type = Some ''USER_SITE'',
                    FirebaseHostingSite.appId = None\<rparr>),
        [SitesList ''abc'' ()])"
  using list_called_once
    [where tools = "example_tools example_sites" and options = "()" and h = "[]"
       and projects = "[\<lparr>projectId = ''abcd'', FirebaseProject.displayName = ''Longer''\<rparr>,
                        \<lparr>projectId = ''abc'', FirebaseProject.displayName = ''Exact''\<rparr>]"
       and ui = "example_ui ''abc''" and fuzzy = subseq_filter and defaultProject = None
       and selected = "''abc''"
       and proj = "\<lparr>projectId = ''abc'', FirebaseProject.displayName = ''Exact''\<rparr>"
       and apps = "[\<lparr>FirebaseApp.appId = Some ''projects/abc/webApps/xabc'',
                      FirebaseApp.displayName = ''Longer''\<rparr>,
                    \<lparr>FirebaseApp.appId = Some ''projects/abc/webApps/abc'',
                      FirebaseApp.displayName = ''Exact''\<rparr>]"
       and ui' = "example_ui (Some ''xabc'')" and fuzzy' = subseq_filter and defaultAppId = None
       and picked = "Some ''xabc''" and it = "\<lparr>sites = example_sites\<rparr>"
       and ui'' = "example_ui (Some ''abc-staging'')" and chosen = "Some ''abc-staging''"
       and fuzzy'' = subseq_filter]
  by (simp add: example_tools_def example_ui_def example_sites_def autocomplete_def
      sites_or_stub_def NEW_OPTION_def shortAppId_def shortSiteName_def new_project_def
      new_app_def new_site_def pop_def split: prod.splits)

text \<open>
  Claim C1 says that a flow throws when the selected value is not the sentinel and no
  record of the list carries it. It does not: \<^verbatim>\<open>find\<close> gives \<^verbatim>\<open>undefined\<close>, the \<^verbatim>\<open>!\<close> behind
  it is erased by the compiler, and the flow returns \<^verbatim>\<open>undefined\<close>. Here the user picks
  \<^verbatim>\<open>ghost\<close> among the projects \<^verbatim>\<open>abcd\<close> and \<^verbatim>\<open>abc\<close>.
\<close>

theorem not_found_returns_undefined_counterexample:
  "projectPrompt subseq_filter (example_tools []) (example_ui ''ghost'') None () []
     = (Inr None, [ProjectsList ()])"
proof -
  have "projectPrompt subseq_filter (example_tools []) (example_ui ''ghost'') None () [] =
      (Inr (find (\<lambda>it. projectId it = ''ghost'')
              [\<lparr>projectId = ''abcd'', FirebaseProject.displayName = ''Longer''\<rparr>,
               \<lparr>projectId = ''abc'', FirebaseProject.displayName = ''Exact''\<rparr>]),
       [] @ [ProjectsList ()])"
    by (rule projectPrompt_selected)
      (simp_all add: example_tools_def example_ui_def autocomplete_def NEW_OPTION_def
        split: prod.splits)
  then show ?thesis by simp
qed

text \<open>
  Claim C1, as amended. In each resource flow, when the prompt answers a value other than
  the sentinel and no record in the resolved candidate list (in \<open>sitePrompt\<close> the list
  of \<open>sitePrompt_sites\<close>: the backend's sites, or the default-site stub when there are
  none) has that value as its short identifier, the flow does not throw: it returns
  \<^verbatim>\<open>undefined\<close> in place of a record.
\<close>

theorem not_found_returns_undefined:
  "(on_projects_list tools h options = Inr projects \<and>
    fst (autocomplete ui (searchProjects fuzzy) (Inr defaultProject) (Inr projects)) = Inr selected \<and>
    selected \<noteq> NEW_OPTION \<and> (\<forall>it\<in>set projects. projectId it \<noteq> selected) \<longrightarrow>
      projectPrompt fuzzy tools ui defaultProject options h
        = (Inr None, h @ [ProjectsList options])) \<and>
   (on_apps_list tools h (projectId proj) options = Inr apps \<and>
    fst (autocomplete ui' (searchApps fuzzy') (Inr defaultAppId) (Inr apps)) = Inr picked \<and>
    picked \<noteq> Some NEW_OPTION \<and> (\<forall>it\<in>set apps. shortAppId (Some it) \<noteq> Inr picked) \<longrightarrow>
      appPrompt fuzzy' tools ui' proj defaultAppId options h
        = (Inr None, h @ [AppsList (projectId proj) options])) \<and>
   (fst (sitePrompt_sites tools (projectId proj) options h) = Inr hosting \<and>
    fst (autocomplete ui' (searchSites fuzzy'') (sitePrompt_default (Inr hosting)) (Inr hosting))
      = Inr picked \<and>
    picked \<noteq> Some NEW_OPTION \<and> (\<forall>it\<in>set hosting. shortSiteName (Some it) \<noteq> Inr picked) \<longrightarrow>
      sitePrompt fuzzy'' tools ui' proj options h
        = (Inr None, h @ [SitesList (projectId proj) options]))"
proof (intro conjI impI)
  assume a: "on_projects_list tools h options = Inr projects \<and>
    fst (autocomplete ui (searchProjects fuzzy) (Inr defaultProject) (Inr projects)) = Inr selected \<and>
    selected \<noteq> NEW_OPTION \<and> (\<forall>it\<in>set projects. projectId it \<noteq> selected)"
  then have "find (\<lambda>it. projectId it = selected) projects = None"
    by (auto simp: find_None_iff)
  then show "projectPrompt fuzzy tools ui defaultProject options h
      = (Inr None, h @ [ProjectsList options])"
    using a projectPrompt_selected [of tools h options projects ui fuzzy defaultProject selected]
    by simp
next
  assume a: "on_apps_list tools h (projectId proj) options = Inr apps \<and>
    fst (autocomplete ui' (searchApps fuzzy') (Inr defaultAppId) (Inr apps)) = Inr picked \<and>
    picked \<noteq> Some NEW_OPTION \<and> (\<forall>it\<in>set apps. shortAppId (Some it) \<noteq> Inr picked)"
  then have "find (\<lambda>it. shortAppId (Some it) = Inr picked) apps = None"
    by (auto simp: find_None_iff)
  then show "appPrompt fuzzy' tools ui' proj defaultAppId options h
        = (Inr None, h @ [AppsList (projectId proj) options])"
    using a appPrompt_selected [of tools h proj options apps ui' fuzzy' defaultAppId picked]
    by simp
next
  assume a: "fst (sitePrompt_sites tools (projectId proj) options h) = Inr hosting \<and>
    fst (autocomplete ui' (searchSites fuzzy'') (sitePrompt_default (Inr hosting)) (Inr hosting))
      = Inr picked \<and>
    picked \<noteq> Some NEW_OPTION \<and> (\<forall>it\<in>set hosting. shortSiteName (Some it) \<noteq> Inr picked)"
  then have "find (\<lambda>it. shortSiteName (Some it) = Inr picked) hosting = None"
    by (auto simp: find_None_iff)
  then show "sitePrompt fuzzy'' tools ui' proj options h
        = (Inr None, h @ [SitesList (projectId proj) options])"
    using a sitePrompt_selected [of tools proj options h hosting ui' fuzzy'' picked]
    by simp
qed

theorem not_found_returns_undefined_witness:
  "projectPrompt subseq_filter (example_tools example_sites) (example_ui ''ghost'') None () []
     = (Inr None, [ProjectsList ()]) \<and>
   appPrompt subseq_filter (example_tools example_sites) (example_ui (Some ''ghost''))
       \<lparr>projectId = ''abc'', FirebaseProject.displayName = ''Exact''\<rparr> None () []
     = (Inr None, [AppsList ''abc'' ()]) \<and>
   sitePrompt subseq_filter (example_tools example_sites) (example_ui (Some ''ghost''))
       \<lparr>projectId = ''abc'', FirebaseProject.displayName = ''Exact''\<rparr> () []
     = (Inr None, [SitesList ''abc'' ()])"
  using not_found_returns_undefined
    [where tools = "example_tools example_sites" and options = "()" and h = "[]"
       and projects = "[\<lparr>projectId = ''abcd'', FirebaseProject.displayName = ''Longer''\<rparr>,
                        \<lparr>projectId = ''abc'', FirebaseProject.displayName = ''Exact''\<rparr>]"
       and ui = "example_ui ''ghost''" and fuzzy = subseq_filter and defaultProject = None
       and selected = "''ghost''"
       and proj = "\<lparr>projectId = ''abc'', FirebaseProject.displayName = ''Exact''\<rparr>"
       and apps = "[\<lparr>FirebaseApp.appId = Some ''projects/abc/webApps/xabc'',
                      FirebaseApp.displayName = ''Longer''\<rparr>,
                    \<lparr>FirebaseApp.appId = Some ''projects/abc/webApps/abc'',
                      FirebaseApp.displayName = ''Exact''\<rparr>]"
       and ui' = "example_ui (Some ''ghost'')" and fuzzy' = subseq_filter and defaultAppId = None
       and picked = "Some ''ghost''" and hosting = example_sites and fuzzy'' = subseq_filter]
  by (simp add: example_tools_def example_ui_def example_sites_def autocomplete_def
      sitePrompt_sites_def sites_list_def sites_or_stub_def NEW_OPTION_def shortAppId_def
      shortSiteName_def pop_def split: prod.splits)

text \<open>
  Claim C9. In each resource flow, when the prompt answers a value other than the sentinel
  and \<open>r\<close> is the first record of the resolved list whose short identifier equals that
  value, the flow returns \<open>r\<close>. The comparison is equality of the whole identifier: a
  record earlier in the list whose identifier only contains the value is passed over.
\<close>

theorem exact_id_selects_record:
  "(on_projects_list tools h options = Inr (pre @ r # post) \<and>
    fst (autocomplete ui (searchProjects fuzzy) (Inr defaultProject) (Inr (pre @ r # post)))
      = Inr selected \<and>
    selected \<noteq> NEW_OPTION \<and> projectId r = selected \<and>
    (\<forall>it\<in>set pre. projectId it \<noteq> selected) \<longrightarrow>
      projectPrompt fuzzy tools ui defaultProject options h
        = (Inr (Some r), h @ [ProjectsList options])) \<and>
   (on_apps_list tools h (projectId proj) options = Inr (pre' @ a # post') \<and>
    fst (autocomplete ui' (searchApps fuzzy') (Inr defaultAppId) (Inr (pre' @ a # post')))
      = Inr picked \<and>
    picked \<noteq> Some NEW_OPTION \<and> shortAppId (Some a) = Inr picked \<and>
    (\<forall>it\<in>set pre'. shortAppId (Some it) \<noteq> Inr picked) \<longrightarrow>
      appPrompt fuzzy' tools ui' proj defaultAppId options h
        = (Inr (Some a), h @ [AppsList (projectId proj) options])) \<and>
   (fst (sitePrompt_sites tools (projectId proj) options h) = Inr (pre'' @ s # post'') \<and>
    fst (autocomplete ui' (searchSites fuzzy'') (sitePrompt_default (Inr (pre'' @ s # post'')))
           (Inr (pre'' @ s # post''))) = Inr picked \<and>
    picked \<noteq> Some NEW_OPTION \<and> shortSiteName (Some s) = Inr picked \<and>
    (\<forall>it\<in>set pre''. shortSiteName (Some it) \<noteq> Inr picked) \<longrightarrow>
      sitePrompt fuzzy'' tools ui' proj options h
        = (Inr (Some s), h @ [SitesList (projectId proj) options]))"
proof (intro conjI impI)
  assume a: "on_projects_list tools h options = Inr (pre @ r # post) \<and>
    fst (autocomplete ui (searchProjects fuzzy) (Inr defaultProject) (Inr (pre @ r # post)))
      = Inr selected \<and>
    selected \<noteq> NEW_OPTION \<and> projectId r = selected \<and>
    (\<forall>it\<in>set pre. projectId it \<noteq> selected)"
  then have "find (\<lambda>it. projectId it = selected) (pre @ r # post) = Some r"
    by (intro find_first) auto
  then show "projectPrompt fuzzy tools ui defaultProject options h
      = (Inr (Some r), h @ [ProjectsList options])"
    using a projectPrompt_selected [of tools h options "pre @ r # post" ui fuzzy defaultProject selected]
    by simp
next
  assume b: "on_apps_list tools h (projectId proj) options = Inr (pre' @ a # post') \<and>
    fst (autocomplete ui' (searchApps fuzzy') (Inr defaultAppId) (Inr (pre' @ a # post')))
      = Inr picked \<and>
    picked \<noteq> Some NEW_OPTION \<and> shortAppId (Some a) = Inr picked \<and>
    (\<forall>it\<in>set pre'. shortAppId (Some it) \<noteq> Inr picked)"
  then have "find (\<lambda>it. shortAppId (Some it) = Inr picked) (pre' @ a # post') = Some a"
    by (intro find_first) auto
  then show "appPrompt fuzzy' tools ui' proj defaultAppId options h
        = (Inr (Some a), h @ [AppsList (projectId proj) options])"
    using b appPrompt_selected [of tools h proj options "pre' @ a # post'" ui' fuzzy' defaultAppId picked]
    by simp
next
  assume c: "fst (sitePrompt_sites tools (projectId proj) options h) = Inr (pre'' @ s # post'') \<and>
    fst (autocomplete ui' (searchSites fuzzy'') (sitePrompt_default (Inr (pre'' @ s # post'')))
           (Inr (pre'' @ s # post''))) = Inr picked \<and>
    picked \<noteq> Some NEW_OPTION \<and> shortSiteName (Some s) = Inr picked \<and>
    (\<forall>it\<in>set pre''. shortSiteName (Some it) \<noteq> Inr picked)"
  then have "find (\<lambda>it. shortSiteName (Some it) = Inr picked) (pre'' @ s # post'') = Some s"
    by (intro find_first) auto
  then show "sitePrompt fuzzy'' tools ui' proj options h
        = (Inr (Some s), h @ [SitesList (projectId proj) options])"
    using c sitePrompt_selected [of tools proj options h "pre'' @ s # post''" ui' fuzzy'' picked]
    by simp
qed

theorem exact_id_selects_record_witness:
  "projectPrompt subseq_filter (example_tools example_sites) (example_ui ''abc'') None () []
     = (Inr (Some \<lparr>projectId = ''abc'', FirebaseProject.displayName = ''Exact''\<rparr>),
        [ProjectsList ()]) \<and>
   appPrompt subseq_filter (example_tools example_sites) (example_ui (Some ''abc''))
       \<lparr>projectId = ''abc'', FirebaseProject.displayName = ''Exact''\<rparr> None () []
     = (Inr (Some \<lparr>FirebaseApp.appId = Some ''projects/abc/webApps/abc'',
                    FirebaseApp.displayName = ''Exact''\<rparr>),
        [AppsList ''abc'' ()]) \<and>
   sitePrompt subseq_filter (example_tools example_sites) (example_ui (Some ''abc''))
       \<lparr>projectId = ''abc'', FirebaseProject.displayName = ''Exact''\<rparr> () []
     = (Inr (Some \<lparr>FirebaseHostingSite.name = Some ''projects/abc/sites/abc'',
                    defaultUrl = ''https://abc.web.app'',
                    type = Some DEFAULT_SITE_TYPE,
                    FirebaseHostingSite.appId = None\<rparr>),
        [SitesList ''abc'' ()])"
  using exact_id_selects_record
    [where tools = "example_tools example_sites" and options = "()" and h = "[]"
       and pre = "[\<lparr>projectId = ''abcd'', FirebaseProject.displayName = ''Longer''\<rparr>]"
       and r = "\<lparr>projectId = ''abc'', FirebaseProject.displayName = ''Exact''\<rparr>"
       and post = "[]"
       and ui = "example_ui ''abc''" and fuzzy = subseq_filter and defaultProject = None
       and selected = "''abc''"
       and proj = "\<lparr>projectId = ''abc'', FirebaseProject.displayName = ''Exact''\<rparr>"
       and pre' = "[\<lparr>FirebaseApp.appId = Some ''projects/abc/webApps/xabc'',
                      FirebaseApp.displayName = ''Longer''\<rparr>]"
       and a = "\<lparr>FirebaseApp.appId = Some ''projects/abc/webApps/abc'',
                      FirebaseApp.displayName = ''Exact''\<rparr>"
       and post' = "[]"
       and ui' = "example_ui (Some ''abc'')" and fuzzy' = subseq_filter and defaultAppId = None
       and picked = "Some ''abc''"
       and pre'' = "[\<lparr>FirebaseHostingSite.name = Some ''projects/abc/sites/abc-staging'',
                       defaultUrl = ''https://abc-staging.web.app'',
                       type = Some ''USER_SITE'',
                       FirebaseHostingSite.appId = None\<rparr>]"
       and s = "\<lparr>FirebaseHostingSite.name = Some ''projects/abc/sites/abc'',
                       defaultUrl = ''https://abc.web.app'',
                       type = Some DEFAULT_SITE_TYPE,
                       FirebaseHostingSite.appId = None\<rparr>"
       and post'' = "[]" and fuzzy'' = subseq_filter]
  by (simp add: example_tools_def example_ui_def example_sites_def autocomplete_def
      sitePrompt_sites_def sites_list_def sites_or_stub_def NEW_OPTION_def shortAppId_def
      shortSiteName_def pop_def split: prod.splits)

text \<open>
  Claim C7. When the backend returns no hosting site for the project, the promise
  \<open>sitePrompt\<close> hands to the adapter resolves to one record, of type \<^verbatim>\<open>DEFAULT_SITE\<close> and
  with the default URL \<^verbatim>\<open>https://{projectId}.web.app\<close>; the handler calls of the prompt put
  their create-new records before it, and the flow looks the picked value up in that one
  record. A list that is not empty is handed on as it is, and the flow looks the picked
  value up in it.
\<close>

theorem stub_default_site:
  "(on_sites_list tools h (projectId proj) options = Inr it \<and> sites it = [] \<longrightarrow>
      fst (sitePrompt_sites tools (projectId proj) options h) =
        Inr [\<lparr>FirebaseHostingSite.name = Some (projectId proj),
              defaultUrl = ''https://'' @ projectId proj @ ''.web.app'',
              type = Some DEFAULT_SITE_TYPE,
              FirebaseHostingSite.appId = None\<rparr>] \<and>
      snd (autocomplete ui (searchSites fuzzy)
             (sitePrompt_default (fst (sitePrompt_sites tools (projectId proj) options h)))
             (fst (sitePrompt_sites tools (projectId proj) options h))) =
        Inr (replicate (length (autocomplete_queries ui)) new_site @
             [\<lparr>FirebaseHostingSite.name = Some (projectId proj),
               defaultUrl = ''https://'' @ projectId proj @ ''.web.app'',
               type = Some DEFAULT_SITE_TYPE,
               FirebaseHostingSite.appId = None\<rparr>]) \<and>
      (fst (autocomplete ui (searchSites fuzzy)
              (sitePrompt_default
                 (Inr [\<lparr>FirebaseHostingSite.name = Some (projectId proj),
                        defaultUrl = ''https://'' @ projectId proj @ ''.web.app'',
                        type = Some DEFAULT_SITE_TYPE,
                        FirebaseHostingSite.appId = None\<rparr>]))
              (Inr [\<lparr>FirebaseHostingSite.name = Some (projectId proj),
                     defaultUrl = ''https://'' @ projectId proj @ ''.web.app'',
                     type = Some DEFAULT_SITE_TYPE,
                     FirebaseHostingSite.appId = None\<rparr>])) = Inr selected \<and>
       selected \<noteq> Some NEW_OPTION \<longrightarrow>
         sitePrompt fuzzy tools ui proj options h =
           (Inr (find (\<lambda>it. shortSiteName (Some it) = Inr selected)
                   [\<lparr>FirebaseHostingSite.name = Some (projectId proj),
                     defaultUrl = ''https://'' @ projectId proj @ ''.web.app'',
                     type = Some DEFAULT_SITE_TYPE,
                     FirebaseHostingSite.appId = None\<rparr>]),
            h @ [SitesList (projectId proj) options]))) \<and>
   (on_sites_list tools h (projectId proj) options = Inr it \<and> sites it \<noteq> [] \<longrightarrow>
      fst (sitePrompt_sites tools (projectId proj) options h) = Inr (sites it) \<and>
      (fst (autocomplete ui (searchSites fuzzy) (sitePrompt_default (Inr (sites it)))
              (Inr (sites it))) = Inr selected \<and>
       selected \<noteq> Some NEW_OPTION \<longrightarrow>
         sitePrompt fuzzy tools ui proj options h =
           (Inr (find (\<lambda>it. shortSiteName (Some it) = Inr selected) (sites it)),
            h @ [SitesList (projectId proj) options])))"
proof (intro conjI impI)
  let ?stub = "\<lparr>FirebaseHostingSite.name = Some (projectId proj),
              defaultUrl = ''https://'' @ projectId proj @ ''.web.app'',
              type = Some DEFAULT_SITE_TYPE,
              FirebaseHostingSite.appId = None\<rparr>"
  assume e: "on_sites_list tools h (projectId proj) options = Inr it \<and> sites it = []"
  then show pool: "fst (sitePrompt_sites tools (projectId proj) options h) = Inr [?stub]"
    by (simp add: sitePrompt_sites_eq sites_or_stub_def)
  show "snd (autocomplete ui (searchSites fuzzy)
             (sitePrompt_default (fst (sitePrompt_sites tools (projectId proj) options h)))
             (fst (sitePrompt_sites tools (projectId proj) options h))) =
        Inr (replicate (length (autocomplete_queries ui)) new_site @ [?stub])"
    using autocomplete_state [of "searchSites fuzzy" new_site ui
        "sitePrompt_default (Inr [?stub])" "Inr [?stub]"]
    by (simp add: pool searchSites_state)
  assume "fst (autocomplete ui (searchSites fuzzy) (sitePrompt_default (Inr [?stub]))
              (Inr [?stub])) = Inr selected \<and> selected \<noteq> Some NEW_OPTION"
  then show "sitePrompt fuzzy tools ui proj options h =
           (Inr (find (\<lambda>it. shortSiteName (Some it) = Inr selected) [?stub]),
            h @ [SitesList (projectId proj) options])"
    using pool sitePrompt_selected [of tools proj options h "[?stub]" ui fuzzy selected]
    by simp
next
  assume n: "on_sites_list tools h (projectId proj) options = Inr it \<and> sites it \<noteq> []"
  then show pool: "fst (sitePrompt_sites tools (projectId proj) options h) = Inr (sites it)"
    by (simp add: sitePrompt_sites_eq sites_or_stub_def)
  assume "fst (autocomplete ui (searchSites fuzzy) (sitePrompt_default (Inr (sites it)))
              (Inr (sites it))) = Inr selected \<and> selected \<noteq> Some NEW_OPTION"
  then show "sitePrompt fuzzy tools ui proj options h =
           (Inr (find (\<lambda>it. shortSiteName (Some it) = Inr selected) (sites it)),
            h @ [SitesList (projectId proj) options])"
    using pool sitePrompt_selected [of tools proj options h "sites it" ui fuzzy selected]
    by simp
qed

theorem stub_default_site_witness:
  "sitePrompt subseq_filter (example_tools []) (example_ui (Some ''abc''))
       \<lparr>projectId = ''abc'', FirebaseProject.displayName = ''Exact''\<rparr> () []
     = (Inr (Some \<lparr>FirebaseHostingSite.name = Some ''abc'',
                    defaultUrl = ''https://abc.web.app'',
                    type = Some ''DEFAULT_SITE'',
                    FirebaseHostingSite.appId = None\<rparr>),
        [SitesList ''abc'' ()]) \<and>
   fst (sitePrompt_sites (example_tools []) ''abc'' () []) =
     Inr [\<lparr>FirebaseHostingSite.name = Some ''abc'',
           defaultUrl = ''https://abc.web.app'',
           type = Some ''DEFAULT_SITE'',
           FirebaseHostingSite.appId = None\<rparr>] \<and>
   sitePrompt subseq_filter (example_tools example_sites) (example_ui (Some ''abc-staging''))
       \<lparr>projectId = ''abc'', FirebaseProject.displayName = ''Exact''\<rparr> () []
     = (Inr (Some \<lparr>FirebaseHostingSite.name = Some ''projects/abc/sites/abc-staging'',
                    defaultUrl = ''https://abc-staging.web.app'',
                    type = Some ''USER_SITE'',
                    FirebaseHostingSite.appId = None\<rparr>),
        [SitesList ''abc'' ()]) \<and>
   fst (sitePrompt_sites (example_tools example_sites) ''abc'' () []) = Inr example_sites"
  using stub_default_site
    [where tools = "example_tools []" and h = "[]" and options = "()"
       and proj = "\<lparr>projectId = ''abc'', FirebaseProject.displayName = ''Exact''\<rparr>"
       and it = "\<lparr>sites = []\<rparr>" and fuzzy = subseq_filter
       and ui = "example_ui (Some ''abc'')" and selected = "Some ''abc''"]
    stub_default_site
    [where tools = "example_tools example_sites" and h = "[]" and options = "()"
       and proj = "\<lparr>projectId = ''abc'', FirebaseProject.displayName = ''Exact''\<rparr>"
       and it = "\<lparr>sites = example_sites\<rparr>" and fuzzy = subseq_filter
       and ui = "example_ui (Some ''abc-staging'')" and selected = "Some ''abc-staging''"]
  by (simp add: example_tools_def example_ui_def example_sites_def autocomplete_def
      DEFAULT_SITE_TYPE_def NEW_OPTION_def shortSiteName_def pop_def split: prod.splits)

text \<open>
  Claim C8. When \<^verbatim>\<open>login.list()\<close> resolves to no list or to an empty one, and the bare
  login that follows does not fail, \<open>userPrompt\<close> calls \<^verbatim>\<open>login()\<close> and then
  \<^verbatim>\<open>login(options)\<close>, makes no further call, and returns what the second call returned.
\<close>

theorem first_login_twice:
  "(on_login_list tools h = Inr None \<or> on_login_list tools h = Inr (Some [])) \<and>
   on_login tools (h @ [LoginList]) None = Inr first \<longrightarrow>
   userPrompt tools list_answer options h =
     ((case on_login tools (h @ [LoginList, Login None]) (Some options) of
         Inl e \<Rightarrow> Inl e
       | Inr second \<Rightarrow> Inr (Inr second)),
      h @ [LoginList, Login None, Login (Some options)])"
  by (auto simp: userPrompt_def login_list_def login_def split: sum.splits)

theorem first_login_twice_witness:
  "userPrompt (example_tools []) (\<lambda>choices dflt. Inr (Inl NEW_OPTION)) () []
     = (Inr (Inr \<lparr>email = ''second@example.com''\<rparr>),
        [LoginList, Login None, Login (Some ())]) \<and>
   userPrompt ((example_tools []) \<lparr>on_login_list := (\<lambda>h. Inr None)\<rparr>)
       (\<lambda>choices dflt. Inr (Inl NEW_OPTION)) () []
     = (Inr (Inr \<lparr>email = ''second@example.com''\<rparr>),
        [LoginList, Login None, Login (Some ())])"
  using first_login_twice
    [where tools = "example_tools []" and first = "\<lparr>email = ''first@example.com''\<rparr>"
       and list_answer = "\<lambda>choices dflt. Inr (Inl NEW_OPTION)" and options = "()" and h = "[]"]
    first_login_twice
    [where tools = "(example_tools []) \<lparr>on_login_list := (\<lambda>h. Inr None)\<rparr>"
       and first = "\<lparr>email = ''first@example.com''\<rparr>"
       and list_answer = "\<lambda>choices dflt. Inr (Inl NEW_OPTION)" and options = "()" and h = "[]"]
  by (simp add: example_tools_def)

end
